theory Spec2Isabelle
  imports Complex_Main "HOL-Library.Word"
begin

section \<open>The relational store\<close>

text \<open>
  The route modules talk to PostgreSQL through \<^verbatim>\<open>pool.query\<close>. A table is the list of its
  rows; every statement the routes issue is one of the shapes below, and every
  \<^verbatim>\<open>pool.query\<close> is its own transaction, so a handler is the composition of its statements
  and whatever it wrote before an exception stays written. A handler is modelled from the
  point where \<^verbatim>\<open>verifyToken\<close> has put the owner into \<^verbatim>\<open>req.userId\<close>. The store is taken to
  execute every statement it is sent; the failures of a statement that are modelled are
  those the input decides: a NULL offered to a \<^verbatim>\<open>NOT NULL\<close> column and, in the lookup of
  the Facebook POST /publish, a number that does not fit the integer id column.

  \<^item> \<^verbatim>\<open>SELECT * FROM t WHERE P\<close> is \<open>sql_select P t\<close>; with \<^verbatim>\<open>LIMIT 1\<close> the handler looks at
    the head of the result (which row that is, when several match, is the store's choice:
    here the one stored first);
  \<^item> \<^verbatim>\<open>UPDATE t SET ... WHERE P\<close> is \<open>sql_update P f t\<close>, and its \<^verbatim>\<open>RETURNING *\<close> rows are
    \<open>sql_returning P f t\<close>;
  \<^item> \<^verbatim>\<open>DELETE FROM t WHERE P\<close> is \<open>sql_delete P t\<close>;
  \<^item> \<^verbatim>\<open>INSERT ... ON CONFLICT (key) DO UPDATE SET ...\<close> is \<open>sql_upsert\<close>, and
    \<^verbatim>\<open>ON CONFLICT (key) DO NOTHING\<close> is \<open>sql_insert_do_nothing\<close>.
\<close>

definition sql_select :: "('r \<Rightarrow> bool) \<Rightarrow> 'r list \<Rightarrow> 'r list" where
  "sql_select P t = filter P t"

definition sql_update :: "('r \<Rightarrow> bool) \<Rightarrow> ('r \<Rightarrow> 'r) \<Rightarrow> 'r list \<Rightarrow> 'r list" where
  "sql_update P f t = map (\<lambda>r. if P r then f r else r) t"

definition sql_returning :: "('r \<Rightarrow> bool) \<Rightarrow> ('r \<Rightarrow> 'r) \<Rightarrow> 'r list \<Rightarrow> 'r list" where
  "sql_returning P f t = map f (filter P t)"

definition sql_delete :: "('r \<Rightarrow> bool) \<Rightarrow> 'r list \<Rightarrow> 'r list" where
  "sql_delete P t = filter (\<lambda>r. \<not> P r) t"

definition sql_upsert :: "('r \<Rightarrow> bool) \<Rightarrow> ('r \<Rightarrow> 'r) \<Rightarrow> 'r \<Rightarrow> 'r list \<Rightarrow> 'r list" where
  "sql_upsert conflict f new t =
     (if list_ex conflict t then sql_update conflict f t else t @ [new])"

definition sql_insert_do_nothing :: "('r \<Rightarrow> bool) \<Rightarrow> 'r \<Rightarrow> 'r list \<Rightarrow> 'r list" where
  "sql_insert_do_nothing conflict new t = (if list_ex conflict t then t else t @ [new])"

subsection \<open>Values crossing the JavaScript boundary\<close>

text \<open>
  A field of a request body or of a provider's JSON answer may be absent: it is an
  \<open>option\<close>. JavaScript's \<^verbatim>\<open>!x\<close> and \<^verbatim>\<open>x || d\<close> treat the empty string and the number 0 like
  an absent value.
\<close>

definition truthy_str :: "string option \<Rightarrow> bool" where
  "truthy_str x = (case x of None \<Rightarrow> False | Some s \<Rightarrow> s \<noteq> [])"

definition truthy_num :: "nat option \<Rightarrow> bool" where
  "truthy_num x = (case x of None \<Rightarrow> False | Some n \<Rightarrow> n \<noteq> 0)"

definition or_null :: "string option \<Rightarrow> string option" where
  "or_null x = (if truthy_str x then x else None)"

definition or_zero :: "int option \<Rightarrow> int" where
  "or_zero x = (case x of None \<Rightarrow> 0 | Some n \<Rightarrow> n)"

definition or_empty :: "'a list option \<Rightarrow> 'a list" where
  "or_empty x = (case x of None \<Rightarrow> [] | Some xs \<Rightarrow> xs)"

text \<open>
  \<^verbatim>\<open>res.json(x)\<close> answers with status 200; \<^verbatim>\<open>res.status(c).json({ error: m })\<close> is \<open>Err c m\<close>.
\<close>

datatype 'a response = Json 'a | Err nat string

fun status :: "'a response \<Rightarrow> nat" where
  "status (Json _) = 200"
| "status (Err c _) = c"

subsection \<open>Tables of \<^verbatim>\<open>database.sql\<close>\<close>

text \<open>
  Columns keep their names, prefixed by the initials of their table. \<^verbatim>\<open>SERIAL\<close> ids and
  \<^verbatim>\<open>INTEGER\<close> owners are natural numbers, timestamps are natural numbers (the reading of the
  server's clock), a nullable column is an \<open>option\<close>.
\<close>

record social_account =
  sa_user_id :: nat
  sa_platform :: string
  sa_access_token :: "string option"

record facebook_page =
  fp_id :: nat
  fp_user_id :: nat
  fp_page_id :: string
  fp_page_name :: string
  fp_page_access_token :: string
  fp_profile_picture_url :: "string option"
  fp_followers_count :: int
  fp_is_selected :: bool
  fp_created_at :: nat

record scheduled_post =
  sp_id :: nat
  sp_user_id :: nat
  sp_page_id :: "string option"
  sp_content :: string
  sp_scheduled_time :: nat
  sp_status :: string
  sp_media_url :: "string option"
  sp_facebook_post_id :: "string option"
  sp_published_at :: "nat option"
  sp_created_at :: nat

record facebook_insight =
  fi_id :: nat
  fi_user_id :: nat
  fi_page_id :: string
  fi_metric_name :: string
  fi_metric_value :: "real option"
  fi_insight_date :: int
  fi_created_at :: nat

record instagram_account =
  ia_id :: nat
  ia_user_id :: nat
  ia_instagram_id :: string
  ia_username :: string
  ia_profile_picture_url :: "string option"
  ia_bio :: "string option"
  ia_followers_count :: int
  ia_is_selected :: bool
  ia_access_token :: string
  ia_created_at :: nat

record instagram_media =
  im_id :: nat
  im_user_id :: nat
  im_instagram_id :: string
  im_media_id :: string
  im_caption :: "string option"
  im_media_type :: "string option"
  im_media_url :: "string option"
  im_likes_count :: int
  im_comments_count :: int
  im_created_time :: nat
  im_fetched_at :: nat

record twitter_account =
  ta_id :: nat
  ta_user_id :: nat
  ta_twitter_id :: string
  ta_username :: string
  ta_profile_picture_url :: "string option"
  ta_bio :: "string option"
  ta_followers_count :: int
  ta_is_selected :: bool
  ta_access_token :: string
  ta_refresh_token :: "string option"
  ta_created_at :: nat

record twitter_tweet =
  tt_id :: nat
  tt_user_id :: nat
  tt_twitter_id :: string
  tt_tweet_id :: string
  tt_text :: "string option"
  tt_likes_count :: int
  tt_retweets_count :: int
  tt_replies_count :: int
  tt_created_time :: nat
  tt_fetched_at :: nat

text \<open>
  The store: the tables, and for each table the routes insert into, the sequence behind
  its \<^verbatim>\<open>SERIAL\<close> id. PostgreSQL draws the next id when it builds the row of an \<^verbatim>\<open>INSERT\<close>,
  before it looks for a conflict, so an upsert that ends in \<^verbatim>\<open>DO UPDATE\<close> or \<^verbatim>\<open>DO NOTHING\<close>
  still uses an id up.
\<close>

record db =
  social_accounts :: "social_account list"
  facebook_pages :: "facebook_page list"
  facebook_pages_seq :: nat
  scheduled_posts :: "scheduled_post list"
  facebook_insights :: "facebook_insight list"
  facebook_insights_seq :: nat
  instagram_accounts :: "instagram_account list"
  instagram_accounts_seq :: nat
  instagram_media :: "instagram_media list"
  instagram_media_seq :: nat
  twitter_accounts :: "twitter_account list"
  twitter_accounts_seq :: nat
  twitter_tweets :: "twitter_tweet list"
  twitter_tweets_seq :: nat

section \<open>The providers\<close>

text \<open>
  Every outbound \<^verbatim>\<open>axios\<close> request is a \<open>provider_call\<close> carrying what the route sends.
  A handler receives the provider as a function from the call to its outcome, \<open>Inl\<close> when
  the promise rejects (a network failure or a status outside 2xx); besides its response
  and the new store it returns the calls it made, in order.
\<close>

type_synonym utf16 = "16 word list"

datatype provider_call =
    FbMeAccounts "string option"
  | IgMe "string option"
  | TwUsersMe "string option"
  | FbInsights string string "(string \<times> string) option"
  | FbFeed string string string "string option"
  | IgMediaList string string string
  | IgCreateContainer string string string string
  | IgMediaPublish string "string option" string
  | TwTweetsList string string string
  | TwPostTweet utf16 string

datatype axios_error = AxiosError string

section \<open>facebookRoutes.js\<close>

subsection \<open>POST /pages/select and GET /pages/selected\<close>

definition facebook_pages_select ::
  "string option \<Rightarrow> nat \<Rightarrow> db \<Rightarrow> (string \<times> facebook_page) response \<times> db" where
  "facebook_pages_select pageId userId d =
     (if \<not> truthy_str pageId then (Err 400 ''Page ID required'', d)
      else
        let d1 = d\<lparr>facebook_pages :=
                   sql_update (\<lambda>r. fp_user_id r = userId) (\<lambda>r. r\<lparr>fp_is_selected := False\<rparr>)
                     (facebook_pages d)\<rparr>;
            hit = (\<lambda>r. fp_user_id r = userId \<and> Some (fp_page_id r) = pageId);
            rows = sql_returning hit (\<lambda>r. r\<lparr>fp_is_selected := True\<rparr>) (facebook_pages d1);
            d2 = d1\<lparr>facebook_pages :=
                    sql_update hit (\<lambda>r. r\<lparr>fp_is_selected := True\<rparr>) (facebook_pages d1)\<rparr>
        in case rows of
             [] \<Rightarrow> (Err 404 ''Page not found'', d2)
           | row # _ \<Rightarrow> (Json (''Page selected'', row), d2))"

definition facebook_pages_selected :: "nat \<Rightarrow> db \<Rightarrow> facebook_page option response" where
  "facebook_pages_selected userId d =
     (case sql_select (\<lambda>r. fp_user_id r = userId \<and> fp_is_selected r) (facebook_pages d) of
        [] \<Rightarrow> Json None
      | row # _ \<Rightarrow> Json (Some row))"

subsection \<open>GET /pages\<close>

text \<open>An element of \<^verbatim>\<open>response.data.data\<close> of \<^verbatim>\<open>me/accounts\<close>; \<open>pg_picture_url\<close> is
  \<^verbatim>\<open>page.picture?.data?.url\<close>.\<close>

record fb_page_json =
  pg_id :: "string option"
  pg_name :: "string option"
  pg_access_token :: "string option"
  pg_picture_url :: "string option"
  pg_followers_count :: "int option"

text \<open>
  One round of the loop. \<^verbatim>\<open>page_id\<close>, \<^verbatim>\<open>page_name\<close> and \<^verbatim>\<open>page_access_token\<close> are
  \<^verbatim>\<open>NOT NULL\<close>: a record lacking one of them makes the statement raise (\<open>False\<close>), after
  the id was drawn.
\<close>

definition facebook_pages_upsert :: "nat \<Rightarrow> nat \<Rightarrow> fb_page_json \<Rightarrow> db \<Rightarrow> bool \<times> db" where
  "facebook_pages_upsert userId now page d =
     (let n = Suc (facebook_pages_seq d); d' = d\<lparr>facebook_pages_seq := n\<rparr> in
      (case (pg_id page, pg_name page, pg_access_token page) of
         (Some pid, Some name, Some token) \<Rightarrow>
           (True, d'\<lparr>facebook_pages :=
              sql_upsert (\<lambda>r. fp_user_id r = userId \<and> fp_page_id r = pid)
                (\<lambda>r. r\<lparr>fp_page_name := name, fp_page_access_token := token,
                        fp_followers_count := or_zero (pg_followers_count page)\<rparr>)
                \<lparr>fp_id = n, fp_user_id = userId, fp_page_id = pid, fp_page_name = name,
                 fp_page_access_token = token,
                 fp_profile_picture_url = or_null (pg_picture_url page),
                 fp_followers_count = or_zero (pg_followers_count page),
                 fp_is_selected = False, fp_created_at = now\<rparr>
                (facebook_pages d)\<rparr>)
       | _ \<Rightarrow> (False, d')))"

fun facebook_pages_store :: "nat \<Rightarrow> nat \<Rightarrow> fb_page_json list \<Rightarrow> db \<Rightarrow> bool \<times> db" where
  "facebook_pages_store userId now [] d = (True, d)"
| "facebook_pages_store userId now (page # pages) d =
     (let (ok, d') = facebook_pages_upsert userId now page d
      in if ok then facebook_pages_store userId now pages d' else (False, d'))"

definition facebook_pages_get ::
  "(provider_call \<Rightarrow> axios_error + fb_page_json list option) \<Rightarrow> nat \<Rightarrow> nat \<Rightarrow> db
     \<Rightarrow> facebook_page list response \<times> db \<times> provider_call list" where
  "facebook_pages_get api userId now d =
     (case sql_select (\<lambda>r. sa_user_id r = userId \<and> sa_platform r = ''facebook'')
             (social_accounts d) of
        [] \<Rightarrow> (Err 400 ''Facebook account not connected'', d, [])
      | userAccount # _ \<Rightarrow>
          let call = FbMeAccounts (sa_access_token userAccount) in
          (case api call of
             Inl e \<Rightarrow> (Err 500 ''Failed to fetch pages'', d, [call])
           | Inr data \<Rightarrow>
               let (ok, d') = facebook_pages_store userId now (or_empty data) d in
               if ok
               then (Json (rev (sort_key fp_followers_count
                       (sql_select (\<lambda>r. fp_user_id r = userId) (facebook_pages d')))), d', [call])
               else (Err 500 ''Failed to fetch pages'', d', [call])))"

subsection \<open>POST /disconnect\<close>

definition facebook_disconnect :: "nat \<Rightarrow> db \<Rightarrow> string response \<times> db" where
  "facebook_disconnect userId d =
     (let d1 = d\<lparr>facebook_pages := sql_delete (\<lambda>r. fp_user_id r = userId) (facebook_pages d)\<rparr>;
          d2 = d1\<lparr>social_accounts :=
                  sql_delete (\<lambda>r. sa_user_id r = userId \<and> sa_platform r = ''facebook'')
                    (social_accounts d1)\<rparr>
      in (Json ''Facebook account disconnected'', d2))"

subsection \<open>GET /insights\<close>

record fb_insight_value =
  iv_value :: "real option"
  iv_end_time :: "int option"

record fb_metric_json =
  mt_name :: "string option"
  mt_values :: "fb_insight_value list option"

text \<open>
  \<^verbatim>\<open>new Date(value.end_time * 1000).toISOString().split('T')[0]\<close>: the UTC day of an
  instant given in seconds, here the number of that day. \<^verbatim>\<open>toISOString\<close> throws a
  RangeError when \<^verbatim>\<open>end_time\<close> is not a number or the instant is outside the range of
  \<^verbatim>\<open>Date\<close> (8.64e15 ms either side of the epoch).
\<close>

definition iso_date :: "int option \<Rightarrow> int option" where
  "iso_date end_time =
     (case end_time of
        None \<Rightarrow> None
      | Some s \<Rightarrow> if \<bar>s * 1000\<bar> \<le> 8640000000000000 then Some (s div 86400) else None)"

definition facebook_insights_insert ::
  "nat \<Rightarrow> nat \<Rightarrow> string \<Rightarrow> string option \<Rightarrow> fb_insight_value \<Rightarrow> db \<Rightarrow> bool \<times> db" where
  "facebook_insights_insert userId now page_id name v d =
     (case iso_date (iv_end_time v) of
        None \<Rightarrow> (False, d)
      | Some date \<Rightarrow>
          let n = Suc (facebook_insights_seq d); d' = d\<lparr>facebook_insights_seq := n\<rparr> in
          (case name of
             None \<Rightarrow> (False, d')
           | Some nm \<Rightarrow>
               (True, d'\<lparr>facebook_insights :=
                  sql_insert_do_nothing
                    (\<lambda>r. fi_page_id r = page_id \<and> fi_metric_name r = nm \<and> fi_insight_date r = date)
                    \<lparr>fi_id = n, fi_user_id = userId, fi_page_id = page_id, fi_metric_name = nm,
                     fi_metric_value = iv_value v, fi_insight_date = date, fi_created_at = now\<rparr>
                    (facebook_insights d)\<rparr>)))"

fun facebook_insights_store_values ::
  "nat \<Rightarrow> nat \<Rightarrow> string \<Rightarrow> string option \<Rightarrow> fb_insight_value list \<Rightarrow> db \<Rightarrow> bool \<times> db" where
  "facebook_insights_store_values userId now page_id name [] d = (True, d)"
| "facebook_insights_store_values userId now page_id name (v # vs) d =
     (let (ok, d') = facebook_insights_insert userId now page_id name v d
      in if ok then facebook_insights_store_values userId now page_id name vs d' else (False, d'))"

fun facebook_insights_store ::
  "nat \<Rightarrow> nat \<Rightarrow> string \<Rightarrow> fb_metric_json list \<Rightarrow> db \<Rightarrow> bool \<times> db" where
  "facebook_insights_store userId now page_id [] d = (True, d)"
| "facebook_insights_store userId now page_id (metric # metrics) d =
     (let (ok, d') = facebook_insights_store_values userId now page_id (mt_name metric)
                       (or_empty (mt_values metric)) d
      in if ok then facebook_insights_store userId now page_id metrics d' else (False, d'))"

definition facebook_insights_get ::
  "(provider_call \<Rightarrow> axios_error + fb_metric_json list option) \<Rightarrow> string option \<Rightarrow> string option
     \<Rightarrow> nat \<Rightarrow> nat \<Rightarrow> db \<Rightarrow> fb_metric_json list response \<times> db \<times> provider_call list" where
  "facebook_insights_get api startDate endDate userId now d =
     (case sql_select (\<lambda>r. fp_user_id r = userId \<and> fp_is_selected r) (facebook_pages d) of
        [] \<Rightarrow> (Err 400 ''No page selected'', d, [])
      | page # _ \<Rightarrow>
          let call = FbInsights (fp_page_id page) (fp_page_access_token page)
                       (if truthy_str startDate \<and> truthy_str endDate
                        then Some (the startDate, the endDate) else None) in
          (case api call of
             Inl e \<Rightarrow> (Err 500 ''Failed to fetch insights'', d, [call])
           | Inr data \<Rightarrow>
               let (ok, d') = facebook_insights_store userId now (fp_page_id page) (or_empty data) d in
               if ok then (Json (or_empty data), d', [call])
               else (Err 500 ''Failed to fetch insights'', d', [call])))"

subsection \<open>POST /publish\<close>

text \<open>
  The provider's answer is \<^verbatim>\<open>response.data.id\<close>. A \<^verbatim>\<open>postId\<close> missing from the body
  reaches the query as NULL and matches no row. A \<^verbatim>\<open>postId\<close> in the body is compared with
  the \<^verbatim>\<open>SERIAL\<close> column \<^verbatim>\<open>id\<close>, a 32-bit integer: PostgreSQL reads the parameter as an
  integer of that type, and for a number above 2147483647 the \<^verbatim>\<open>SELECT\<close> raises, which the
  route's \<^verbatim>\<open>catch\<close> answers with 500 before anything else is done.
\<close>

definition out_of_int4 :: "nat option \<Rightarrow> bool" where
  "out_of_int4 x = (case x of None \<Rightarrow> False | Some n \<Rightarrow> n > 2147483647)"

definition facebook_publish ::
  "(provider_call \<Rightarrow> axios_error + string option) \<Rightarrow> nat option \<Rightarrow> nat \<Rightarrow> nat \<Rightarrow> db
     \<Rightarrow> (string \<times> string option) response \<times> db \<times> provider_call list" where
  "facebook_publish api postId userId now d =
     (if out_of_int4 postId then (Err 500 ''Failed to publish post'', d, [])
      else
      case sql_select (\<lambda>r. Some (sp_id r) = postId \<and> sp_user_id r = userId) (scheduled_posts d) of
        [] \<Rightarrow> (Err 404 ''Post not found'', d, [])
      | post # _ \<Rightarrow>
          (case sql_select (\<lambda>r. Some (fp_page_id r) = sp_page_id post) (facebook_pages d) of
             [] \<Rightarrow> (Err 400 ''Page not found'', d, [])
           | page # _ \<Rightarrow>
               let call = FbFeed (fp_page_id page) (sp_content post) (fp_page_access_token page)
                            (or_null (sp_media_url post)) in
               (case api call of
                  Inl e \<Rightarrow> (Err 500 ''Failed to publish post'', d, [call])
                | Inr rid \<Rightarrow>
                    (Json (''Post published successfully'', rid),
                     d\<lparr>scheduled_posts :=
                         sql_update (\<lambda>r. Some (sp_id r) = postId)
                           (\<lambda>r. r\<lparr>sp_status := ''published'', sp_facebook_post_id := rid,
                                   sp_published_at := Some now\<rparr>)
                           (scheduled_posts d)\<rparr>,
                     [call]))))"

section \<open>instagramRoutes.js\<close>

subsection \<open>GET /accounts\<close>

record ig_user_json =
  iu_id :: "string option"
  iu_username :: "string option"
  iu_profile_picture_url :: "string option"
  iu_biography :: "string option"
  iu_followers_count :: "int option"

definition instagram_accounts_upsert ::
  "nat \<Rightarrow> nat \<Rightarrow> string option \<Rightarrow> ig_user_json \<Rightarrow> db \<Rightarrow> bool \<times> db" where
  "instagram_accounts_upsert userId now accessToken igAccount d =
     (let n = Suc (instagram_accounts_seq d); d' = d\<lparr>instagram_accounts_seq := n\<rparr> in
      (case (iu_id igAccount, iu_username igAccount, accessToken) of
         (Some iid, Some name, Some token) \<Rightarrow>
           (True, d'\<lparr>instagram_accounts :=
              sql_upsert (\<lambda>r. ia_user_id r = userId \<and> ia_instagram_id r = iid)
                (\<lambda>r. r\<lparr>ia_username := name,
                        ia_profile_picture_url := or_null (iu_profile_picture_url igAccount),
                        ia_bio := or_null (iu_biography igAccount),
                        ia_followers_count := or_zero (iu_followers_count igAccount),
                        ia_access_token := token\<rparr>)
                \<lparr>ia_id = n, ia_user_id = userId, ia_instagram_id = iid, ia_username = name,
                 ia_profile_picture_url = or_null (iu_profile_picture_url igAccount),
                 ia_bio = or_null (iu_biography igAccount),
                 ia_followers_count = or_zero (iu_followers_count igAccount),
                 ia_is_selected = False, ia_access_token = token, ia_created_at = now\<rparr>
                (instagram_accounts d)\<rparr>)
       | _ \<Rightarrow> (False, d')))"

definition instagram_accounts_get ::
  "(provider_call \<Rightarrow> axios_error + ig_user_json) \<Rightarrow> nat \<Rightarrow> nat \<Rightarrow> db
     \<Rightarrow> (instagram_account + ig_user_json) response \<times> db \<times> provider_call list" where
  "instagram_accounts_get api userId now d =
     (case sql_select (\<lambda>r. sa_user_id r = userId \<and> sa_platform r = ''instagram'')
             (social_accounts d) of
        [] \<Rightarrow> (Err 400 ''Instagram account not connected'', d, [])
      | userAccount # _ \<Rightarrow>
          let call = IgMe (sa_access_token userAccount) in
          (case api call of
             Inl e \<Rightarrow> (Err 500 ''Failed to fetch Instagram accounts'', d, [call])
           | Inr igAccount \<Rightarrow>
               let (ok, d') = instagram_accounts_upsert userId now (sa_access_token userAccount)
                                igAccount d in
               if ok
               then (case sql_select (\<lambda>r. ia_user_id r = userId
                                          \<and> Some (ia_instagram_id r) = iu_id igAccount)
                            (instagram_accounts d') of
                       [] \<Rightarrow> (Json (Inr igAccount), d', [call])
                     | row # _ \<Rightarrow> (Json (Inl row), d', [call]))
               else (Err 500 ''Failed to fetch Instagram accounts'', d', [call])))"

subsection \<open>POST /accounts/select and GET /accounts/selected\<close>

definition instagram_accounts_select ::
  "string option \<Rightarrow> nat \<Rightarrow> db \<Rightarrow> (string \<times> instagram_account) response \<times> db" where
  "instagram_accounts_select instagramId userId d =
     (if \<not> truthy_str instagramId then (Err 400 ''Instagram ID required'', d)
      else
        let d1 = d\<lparr>instagram_accounts :=
                   sql_update (\<lambda>r. ia_user_id r = userId) (\<lambda>r. r\<lparr>ia_is_selected := False\<rparr>)
                     (instagram_accounts d)\<rparr>;
            hit = (\<lambda>r. ia_user_id r = userId \<and> Some (ia_instagram_id r) = instagramId);
            rows = sql_returning hit (\<lambda>r. r\<lparr>ia_is_selected := True\<rparr>) (instagram_accounts d1);
            d2 = d1\<lparr>instagram_accounts :=
                    sql_update hit (\<lambda>r. r\<lparr>ia_is_selected := True\<rparr>) (instagram_accounts d1)\<rparr>
        in case rows of
             [] \<Rightarrow> (Err 404 ''Instagram account not found'', d2)
           | row # _ \<Rightarrow> (Json (''Instagram account selected'', row), d2))"

definition instagram_accounts_selected :: "nat \<Rightarrow> db \<Rightarrow> instagram_account option response" where
  "instagram_accounts_selected userId d =
     (case sql_select (\<lambda>r. ia_user_id r = userId \<and> ia_is_selected r) (instagram_accounts d) of
        [] \<Rightarrow> Json None
      | row # _ \<Rightarrow> Json (Some row))"

subsection \<open>POST /disconnect\<close>

definition instagram_disconnect :: "nat \<Rightarrow> db \<Rightarrow> string response \<times> db" where
  "instagram_disconnect userId d =
     (let d1 = d\<lparr>instagram_accounts :=
                  sql_delete (\<lambda>r. ia_user_id r = userId) (instagram_accounts d)\<rparr>;
          d2 = d1\<lparr>instagram_media := sql_delete (\<lambda>r. im_user_id r = userId) (instagram_media d1)\<rparr>;
          d3 = d2\<lparr>social_accounts :=
                  sql_delete (\<lambda>r. sa_user_id r = userId \<and> sa_platform r = ''instagram'')
                    (social_accounts d2)\<rparr>
      in (Json ''Instagram account disconnected'', d3))"

subsection \<open>GET /media\<close>

record ig_media_json =
  md_id :: "string option"
  md_caption :: "string option"
  md_media_type :: "string option"
  md_media_url :: "string option"
  md_like_count :: "int option"
  md_comments_count :: "int option"
  md_timestamp :: "nat option"

definition instagram_media_upsert ::
  "nat \<Rightarrow> nat \<Rightarrow> string \<Rightarrow> ig_media_json \<Rightarrow> db \<Rightarrow> bool \<times> db" where
  "instagram_media_upsert userId now instagram_id media d =
     (let n = Suc (instagram_media_seq d); d' = d\<lparr>instagram_media_seq := n\<rparr> in
      (case md_id media of
         None \<Rightarrow> (False, d')
       | Some mid \<Rightarrow>
           (True, d'\<lparr>instagram_media :=
              sql_upsert (\<lambda>r. im_instagram_id r = instagram_id \<and> im_media_id r = mid)
                (\<lambda>r. r\<lparr>im_caption := or_null (md_caption media),
                        im_likes_count := or_zero (md_like_count media),
                        im_comments_count := or_zero (md_comments_count media)\<rparr>)
                \<lparr>im_id = n, im_user_id = userId, im_instagram_id = instagram_id,
                 im_media_id = mid, im_caption = or_null (md_caption media),
                 im_media_type = md_media_type media,
                 im_media_url = or_null (md_media_url media),
                 im_likes_count = or_zero (md_like_count media),
                 im_comments_count = or_zero (md_comments_count media),
                 im_created_time = (case md_timestamp media of None \<Rightarrow> now | Some t \<Rightarrow> t),
                 im_fetched_at = now\<rparr>
                (instagram_media d)\<rparr>)))"

fun instagram_media_store ::
  "nat \<Rightarrow> nat \<Rightarrow> string \<Rightarrow> ig_media_json list \<Rightarrow> db \<Rightarrow> bool \<times> db" where
  "instagram_media_store userId now instagram_id [] d = (True, d)"
| "instagram_media_store userId now instagram_id (media # rest) d =
     (let (ok, d') = instagram_media_upsert userId now instagram_id media d
      in if ok then instagram_media_store userId now instagram_id rest d' else (False, d'))"

text \<open>The \<^verbatim>\<open>paging\<close> object of the answer is handed through untouched and left out.\<close>

definition instagram_media_get ::
  "(provider_call \<Rightarrow> axios_error + ig_media_json list option) \<Rightarrow> string option \<Rightarrow> nat \<Rightarrow> nat \<Rightarrow> db
     \<Rightarrow> ig_media_json list response \<times> db \<times> provider_call list" where
  "instagram_media_get api limit userId now d =
     (case sql_select (\<lambda>r. ia_user_id r = userId \<and> ia_is_selected r) (instagram_accounts d) of
        [] \<Rightarrow> (Err 400 ''No Instagram account selected'', d, [])
      | account # _ \<Rightarrow>
          let call = IgMediaList (ia_instagram_id account) (ia_access_token account)
                       (case limit of None \<Rightarrow> ''10'' | Some l \<Rightarrow> l) in
          (case api call of
             Inl e \<Rightarrow> (Err 500 ''Failed to fetch media'', d, [call])
           | Inr data \<Rightarrow>
               let (ok, d') = instagram_media_store userId now (ia_instagram_id account)
                                (or_empty data) d in
               if ok then (Json (or_empty data), d', [call])
               else (Err 500 ''Failed to fetch media'', d', [call])))"

subsection \<open>POST /publish\<close>

definition instagram_publish ::
  "(provider_call \<Rightarrow> axios_error + string option) \<Rightarrow> (provider_call \<Rightarrow> axios_error + string option)
     \<Rightarrow> nat option \<Rightarrow> string option \<Rightarrow> string option \<Rightarrow> nat \<Rightarrow> nat \<Rightarrow> db
     \<Rightarrow> (string \<times> string option) response \<times> db \<times> provider_call list" where
  "instagram_publish api_media api_media_publish postId caption imageUrl userId now d =
     (if \<not> truthy_str imageUrl then (Err 400 ''Image URL required'', d, [])
      else
       (case sql_select (\<lambda>r. ia_user_id r = userId \<and> ia_is_selected r) (instagram_accounts d) of
          [] \<Rightarrow> (Err 400 ''No Instagram account selected'', d, [])
        | account # _ \<Rightarrow>
            let call1 = IgCreateContainer (ia_instagram_id account) (the imageUrl)
                          (case or_null caption of None \<Rightarrow> [] | Some c \<Rightarrow> c)
                          (ia_access_token account) in
            (case api_media call1 of
               Inl e \<Rightarrow> (Err 500 ''Failed to publish to Instagram'', d, [call1])
             | Inr containerId \<Rightarrow>
                 let call2 = IgMediaPublish (ia_instagram_id account) containerId
                               (ia_access_token account) in
                 (case api_media_publish call2 of
                    Inl e \<Rightarrow> (Err 500 ''Failed to publish to Instagram'', d, [call1, call2])
                  | Inr mediaId \<Rightarrow>
                      (Json (''Photo published to Instagram'', mediaId),
                       (if truthy_num postId
                        then d\<lparr>scheduled_posts :=
                               sql_update (\<lambda>r. Some (sp_id r) = postId)
                                 (\<lambda>r. r\<lparr>sp_status := ''published'', sp_facebook_post_id := mediaId,
                                         sp_published_at := Some now\<rparr>)
                                 (scheduled_posts d)\<rparr>
                        else d),
                       [call1, call2])))))"

section \<open>twitterRoutes.js\<close>

subsection \<open>GET /accounts\<close>

text \<open>\<open>tu_followers_count\<close> is \<^verbatim>\<open>twitterUser.public_metrics?.followers_count\<close>. The user is
  \<^verbatim>\<open>userResponse.data.data\<close>; when the answer has no \<^verbatim>\<open>data\<close>, reading \<^verbatim>\<open>twitterUser.id\<close>
  throws before any statement runs.\<close>

record tw_user_json =
  tu_id :: "string option"
  tu_username :: "string option"
  tu_description :: "string option"
  tu_profile_image_url :: "string option"
  tu_followers_count :: "int option"

definition twitter_accounts_upsert ::
  "nat \<Rightarrow> nat \<Rightarrow> string option \<Rightarrow> tw_user_json \<Rightarrow> db \<Rightarrow> bool \<times> db" where
  "twitter_accounts_upsert userId now accessToken twitterUser d =
     (let n = Suc (twitter_accounts_seq d); d' = d\<lparr>twitter_accounts_seq := n\<rparr> in
      (case (tu_id twitterUser, tu_username twitterUser, accessToken) of
         (Some tid, Some name, Some token) \<Rightarrow>
           (True, d'\<lparr>twitter_accounts :=
              sql_upsert (\<lambda>r. ta_user_id r = userId \<and> ta_twitter_id r = tid)
                (\<lambda>r. r\<lparr>ta_username := name,
                        ta_bio := or_null (tu_description twitterUser),
                        ta_profile_picture_url := or_null (tu_profile_image_url twitterUser),
                        ta_followers_count := or_zero (tu_followers_count twitterUser),
                        ta_access_token := token\<rparr>)
                \<lparr>ta_id = n, ta_user_id = userId, ta_twitter_id = tid, ta_username = name,
                 ta_profile_picture_url = or_null (tu_profile_image_url twitterUser),
                 ta_bio = or_null (tu_description twitterUser),
                 ta_followers_count = or_zero (tu_followers_count twitterUser),
                 ta_is_selected = False, ta_access_token = token, ta_refresh_token = None,
                 ta_created_at = now\<rparr>
                (twitter_accounts d)\<rparr>)
       | _ \<Rightarrow> (False, d')))"

definition twitter_accounts_get ::
  "(provider_call \<Rightarrow> axios_error + tw_user_json option) \<Rightarrow> nat \<Rightarrow> nat \<Rightarrow> db
     \<Rightarrow> (twitter_account + tw_user_json) response \<times> db \<times> provider_call list" where
  "twitter_accounts_get api userId now d =
     (case sql_select (\<lambda>r. sa_user_id r = userId \<and> sa_platform r = ''twitter'')
             (social_accounts d) of
        [] \<Rightarrow> (Err 400 ''Twitter account not connected'', d, [])
      | userAccount # _ \<Rightarrow>
          let call = TwUsersMe (sa_access_token userAccount) in
          (case api call of
             Inl e \<Rightarrow> (Err 500 ''Failed to fetch Twitter accounts'', d, [call])
           | Inr None \<Rightarrow> (Err 500 ''Failed to fetch Twitter accounts'', d, [call])
           | Inr (Some twitterUser) \<Rightarrow>
               let (ok, d') = twitter_accounts_upsert userId now (sa_access_token userAccount)
                                twitterUser d in
               if ok
               then (case sql_select (\<lambda>r. ta_user_id r = userId
                                          \<and> Some (ta_twitter_id r) = tu_id twitterUser)
                            (twitter_accounts d') of
                       [] \<Rightarrow> (Json (Inr twitterUser), d', [call])
                     | row # _ \<Rightarrow> (Json (Inl row), d', [call]))
               else (Err 500 ''Failed to fetch Twitter accounts'', d', [call])))"

subsection \<open>POST /accounts/select and GET /accounts/selected\<close>

definition twitter_accounts_select ::
  "string option \<Rightarrow> nat \<Rightarrow> db \<Rightarrow> (string \<times> twitter_account) response \<times> db" where
  "twitter_accounts_select twitterId userId d =
     (if \<not> truthy_str twitterId then (Err 400 ''Twitter ID required'', d)
      else
        let d1 = d\<lparr>twitter_accounts :=
                   sql_update (\<lambda>r. ta_user_id r = userId) (\<lambda>r. r\<lparr>ta_is_selected := False\<rparr>)
                     (twitter_accounts d)\<rparr>;
            hit = (\<lambda>r. ta_user_id r = userId \<and> Some (ta_twitter_id r) = twitterId);
            rows = sql_returning hit (\<lambda>r. r\<lparr>ta_is_selected := True\<rparr>) (twitter_accounts d1);
            d2 = d1\<lparr>twitter_accounts :=
                    sql_update hit (\<lambda>r. r\<lparr>ta_is_selected := True\<rparr>) (twitter_accounts d1)\<rparr>
        in case rows of
             [] \<Rightarrow> (Err 404 ''Twitter account not found'', d2)
           | row # _ \<Rightarrow> (Json (''Twitter account selected'', row), d2))"

definition twitter_accounts_selected :: "nat \<Rightarrow> db \<Rightarrow> twitter_account option response" where
  "twitter_accounts_selected userId d =
     (case sql_select (\<lambda>r. ta_user_id r = userId \<and> ta_is_selected r) (twitter_accounts d) of
        [] \<Rightarrow> Json None
      | row # _ \<Rightarrow> Json (Some row))"

subsection \<open>POST /disconnect\<close>

definition twitter_disconnect :: "nat \<Rightarrow> db \<Rightarrow> string response \<times> db" where
  "twitter_disconnect userId d =
     (let d1 = d\<lparr>twitter_accounts := sql_delete (\<lambda>r. ta_user_id r = userId) (twitter_accounts d)\<rparr>;
          d2 = d1\<lparr>twitter_tweets := sql_delete (\<lambda>r. tt_user_id r = userId) (twitter_tweets d1)\<rparr>;
          d3 = d2\<lparr>social_accounts :=
                  sql_delete (\<lambda>r. sa_user_id r = userId \<and> sa_platform r = ''twitter'')
                    (social_accounts d2)\<rparr>
      in (Json ''Twitter account disconnected'', d3))"

subsection \<open>GET /tweets\<close>

text \<open>The counts are \<^verbatim>\<open>tweet.public_metrics?.like_count\<close> and its siblings.\<close>

record tw_tweet_json =
  tw_id :: "string option"
  tw_text :: "string option"
  tw_like_count :: "int option"
  tw_retweet_count :: "int option"
  tw_reply_count :: "int option"
  tw_created_at :: "nat option"

definition twitter_tweets_upsert ::
  "nat \<Rightarrow> nat \<Rightarrow> string \<Rightarrow> tw_tweet_json \<Rightarrow> db \<Rightarrow> bool \<times> db" where
  "twitter_tweets_upsert userId now twitter_id tweet d =
     (let n = Suc (twitter_tweets_seq d); d' = d\<lparr>twitter_tweets_seq := n\<rparr> in
      (case tw_id tweet of
         None \<Rightarrow> (False, d')
       | Some tid \<Rightarrow>
           (True, d'\<lparr>twitter_tweets :=
              sql_upsert (\<lambda>r. tt_twitter_id r = twitter_id \<and> tt_tweet_id r = tid)
                (\<lambda>r. r\<lparr>tt_text := tw_text tweet,
                        tt_likes_count := or_zero (tw_like_count tweet),
                        tt_retweets_count := or_zero (tw_retweet_count tweet),
                        tt_replies_count := or_zero (tw_reply_count tweet)\<rparr>)
                \<lparr>tt_id = n, tt_user_id = userId, tt_twitter_id = twitter_id, tt_tweet_id = tid,
                 tt_text = tw_text tweet,
                 tt_likes_count = or_zero (tw_like_count tweet),
                 tt_retweets_count = or_zero (tw_retweet_count tweet),
                 tt_replies_count = or_zero (tw_reply_count tweet),
                 tt_created_time = (case tw_created_at tweet of None \<Rightarrow> now | Some t \<Rightarrow> t),
                 tt_fetched_at = now\<rparr>
                (twitter_tweets d)\<rparr>)))"

fun twitter_tweets_store ::
  "nat \<Rightarrow> nat \<Rightarrow> string \<Rightarrow> tw_tweet_json list \<Rightarrow> db \<Rightarrow> bool \<times> db" where
  "twitter_tweets_store userId now twitter_id [] d = (True, d)"
| "twitter_tweets_store userId now twitter_id (tweet # rest) d =
     (let (ok, d') = twitter_tweets_upsert userId now twitter_id tweet d
      in if ok then twitter_tweets_store userId now twitter_id rest d' else (False, d'))"

text \<open>The \<^verbatim>\<open>meta\<close> object of the answer is handed through untouched and left out.\<close>

definition twitter_tweets_get ::
  "(provider_call \<Rightarrow> axios_error + tw_tweet_json list option) \<Rightarrow> string option \<Rightarrow> nat \<Rightarrow> nat \<Rightarrow> db
     \<Rightarrow> tw_tweet_json list response \<times> db \<times> provider_call list" where
  "twitter_tweets_get api limit userId now d =
     (case sql_select (\<lambda>r. ta_user_id r = userId \<and> ta_is_selected r) (twitter_accounts d) of
        [] \<Rightarrow> (Err 400 ''No Twitter account selected'', d, [])
      | account # _ \<Rightarrow>
          let call = TwTweetsList (ta_twitter_id account) (ta_access_token account)
                       (case limit of None \<Rightarrow> ''10'' | Some l \<Rightarrow> l) in
          (case api call of
             Inl e \<Rightarrow> (Err 500 ''Failed to fetch tweets'', d, [call])
           | Inr data \<Rightarrow>
               let (ok, d') = twitter_tweets_store userId now (ta_twitter_id account)
                                (or_empty data) d in
               if ok then (Json (or_empty data), d', [call])
               else (Err 500 ''Failed to fetch tweets'', d', [call])))"

subsection \<open>POST /tweet\<close>

text \<open>
  The text is a JavaScript string, a sequence of UTF-16 code units, and \<^verbatim>\<open>text.length\<close>
  counts them. The provider's answer is \<^verbatim>\<open>response.data.data\<close>, absent (\<open>None\<close>) or an
  object with its \<^verbatim>\<open>id\<close>; reading the id of an absent \<^verbatim>\<open>data\<close> throws.
\<close>

definition twitter_tweet ::
  "(provider_call \<Rightarrow> axios_error + string option option) \<Rightarrow> nat option \<Rightarrow> utf16 option \<Rightarrow> nat \<Rightarrow> nat
     \<Rightarrow> db \<Rightarrow> (string \<times> string option) response \<times> db \<times> provider_call list" where
  "twitter_tweet api postId text userId now d =
     (case text of
        None \<Rightarrow> (Err 400 ''Tweet text required'', d, [])
      | Some txt \<Rightarrow>
          if txt = [] then (Err 400 ''Tweet text required'', d, [])
          else if length txt > 280 then (Err 400 ''Tweet must be 280 characters or less'', d, [])
          else
           (case sql_select (\<lambda>r. ta_user_id r = userId \<and> ta_is_selected r) (twitter_accounts d) of
              [] \<Rightarrow> (Err 400 ''No Twitter account selected'', d, [])
            | account # _ \<Rightarrow>
                let call = TwPostTweet txt (ta_access_token account) in
                (case api call of
                   Inl e \<Rightarrow> (Err 500 ''Failed to post tweet'', d, [call])
                 | Inr None \<Rightarrow> (Err 500 ''Failed to post tweet'', d, [call])
                 | Inr (Some tweetId) \<Rightarrow>
                     (Json (''Tweet posted successfully'', tweetId),
                      (if truthy_num postId
                       then d\<lparr>scheduled_posts :=
                              sql_update (\<lambda>r. Some (sp_id r) = postId)
                                (\<lambda>r. r\<lparr>sp_status := ''published'', sp_facebook_post_id := tweetId,
                                        sp_published_at := Some now\<rparr>)
                                (scheduled_posts d)\<rparr>
                       else d),
                      [call]))))"

section \<open>Notions the properties are stated with\<close>

subsection \<open>Constraints of the schema and columns an upsert leaves alone\<close>

text \<open>
  \<^verbatim>\<open>UNIQUE(user_id, page_id)\<close>, \<^verbatim>\<open>UNIQUE(user_id, instagram_id)\<close>,
  \<^verbatim>\<open>UNIQUE(user_id, twitter_id)\<close> and the primary key of \<^verbatim>\<open>scheduled_posts\<close>, a
  \<^verbatim>\<open>SERIAL\<close> column (no two rows share an id, and an id fits in 32 bits), which the store
  enforces on every state.
\<close>

definition facebook_pages_unique :: "facebook_page list \<Rightarrow> bool" where
  "facebook_pages_unique t = distinct (map (\<lambda>r. (fp_user_id r, fp_page_id r)) t)"

definition instagram_accounts_unique :: "instagram_account list \<Rightarrow> bool" where
  "instagram_accounts_unique t = distinct (map (\<lambda>r. (ia_user_id r, ia_instagram_id r)) t)"

definition twitter_accounts_unique :: "twitter_account list \<Rightarrow> bool" where
  "twitter_accounts_unique t = distinct (map (\<lambda>r. (ta_user_id r, ta_twitter_id r)) t)"

definition scheduled_posts_pkey :: "scheduled_post list \<Rightarrow> bool" where
  "scheduled_posts_pkey t =
     (distinct (map sp_id t) \<and> list_all (\<lambda>r. sp_id r \<le> 2147483647) t)"

text \<open>The rows of an owner that carry the selection flag.\<close>

definition facebook_pages_selected_rows :: "nat \<Rightarrow> db \<Rightarrow> facebook_page list" where
  "facebook_pages_selected_rows userId d =
     sql_select (\<lambda>r. fp_user_id r = userId \<and> fp_is_selected r) (facebook_pages d)"

definition instagram_accounts_selected_rows :: "nat \<Rightarrow> db \<Rightarrow> instagram_account list" where
  "instagram_accounts_selected_rows userId d =
     sql_select (\<lambda>r. ia_user_id r = userId \<and> ia_is_selected r) (instagram_accounts d)"

definition twitter_accounts_selected_rows :: "nat \<Rightarrow> db \<Rightarrow> twitter_account list" where
  "twitter_accounts_selected_rows userId d =
     sql_select (\<lambda>r. ta_user_id r = userId \<and> ta_is_selected r) (twitter_accounts d)"

text \<open>
  The columns no \<^verbatim>\<open>DO UPDATE SET\<close> clause of the routes assigns, table by table: the id,
  the key, the timestamps, and what is written only when the row is inserted.
\<close>

definition fp_frame :: "facebook_page \<Rightarrow> nat \<times> nat \<times> string \<times> string option \<times> bool \<times> nat" where
  "fp_frame r = (fp_id r, fp_user_id r, fp_page_id r, fp_profile_picture_url r,
                 fp_is_selected r, fp_created_at r)"

definition ia_frame :: "instagram_account \<Rightarrow> nat \<times> nat \<times> string \<times> bool \<times> nat" where
  "ia_frame r = (ia_id r, ia_user_id r, ia_instagram_id r, ia_is_selected r, ia_created_at r)"

definition ta_frame :: "twitter_account \<Rightarrow> nat \<times> nat \<times> string \<times> bool \<times> string option \<times> nat" where
  "ta_frame r = (ta_id r, ta_user_id r, ta_twitter_id r, ta_is_selected r, ta_refresh_token r,
                 ta_created_at r)"

definition im_frame ::
  "instagram_media \<Rightarrow> nat \<times> nat \<times> string \<times> string \<times> string option \<times> string option \<times> nat \<times> nat" where
  "im_frame r = (im_id r, im_user_id r, im_instagram_id r, im_media_id r, im_media_type r,
                 im_media_url r, im_created_time r, im_fetched_at r)"

definition tt_frame :: "twitter_tweet \<Rightarrow> nat \<times> nat \<times> string \<times> string \<times> nat \<times> nat" where
  "tt_frame r = (tt_id r, tt_user_id r, tt_twitter_id r, tt_tweet_id r, tt_created_time r,
                 tt_fetched_at r)"

text \<open>
  The characters of a JavaScript string, counted as Unicode code points: a code unit from
  D800 to DBFF followed by one from DC00 to DFFF is a single character (a surrogate pair),
  every other code unit is a character of its own. \<^verbatim>\<open>text.length\<close> counts code units.
\<close>

definition high_surrogate :: "16 word \<Rightarrow> bool" where
  "high_surrogate x = (0xD800 \<le> x \<and> x \<le> 0xDBFF)"

definition low_surrogate :: "16 word \<Rightarrow> bool" where
  "low_surrogate x = (0xDC00 \<le> x \<and> x \<le> 0xDFFF)"

fun characters :: "utf16 \<Rightarrow> nat" where
  "characters [] = 0"
| "characters [x] = 1"
| "characters (x # y # xs) =
     (if high_surrogate x \<and> low_surrogate y then Suc (characters xs)
      else Suc (characters (y # xs)))"

text \<open>The text made of \<open>n\<close> emoji U+1F600, each the surrogate pair D83D DE00.\<close>

definition emoji_text :: "nat \<Rightarrow> utf16" where
  "emoji_text n = concat (replicate n [0xD83D, 0xDE00])"

subsection \<open>The content of a mirror table\<close>














subsection \<open>Sample data\<close>

definition page42 :: facebook_page where
  "page42 = \<lparr>fp_id = 1, fp_user_id = 1, fp_page_id = ''42'', fp_page_name = ''A'',
     fp_page_access_token = ''t42'', fp_profile_picture_url = None, fp_followers_count = 10,
     fp_is_selected = True, fp_created_at = 100\<rparr>"

definition page99 :: facebook_page where
  "page99 = \<lparr>fp_id = 2, fp_user_id = 1, fp_page_id = ''99'', fp_page_name = ''B'',
     fp_page_access_token = ''t99'', fp_profile_picture_url = None, fp_followers_count = 3,
     fp_is_selected = False, fp_created_at = 100\<rparr>"

definition page77 :: facebook_page where
  "page77 = \<lparr>fp_id = 3, fp_user_id = 2, fp_page_id = ''77'', fp_page_name = ''C'',
     fp_page_access_token = ''t77'', fp_profile_picture_url = None, fp_followers_count = 5,
     fp_is_selected = True, fp_created_at = 101\<rparr>"

definition ig_a :: instagram_account where
  "ig_a = \<lparr>ia_id = 1, ia_user_id = 1, ia_instagram_id = ''a'', ia_username = ''ann'',
     ia_profile_picture_url = None, ia_bio = None, ia_followers_count = 7,
     ia_is_selected = True, ia_access_token = ''ta'', ia_created_at = 100\<rparr>"

definition ig_b :: instagram_account where
  "ig_b = \<lparr>ia_id = 2, ia_user_id = 1, ia_instagram_id = ''b'', ia_username = ''bob'',
     ia_profile_picture_url = None, ia_bio = None, ia_followers_count = 8,
     ia_is_selected = False, ia_access_token = ''tb'', ia_created_at = 100\<rparr>"

definition ig_c :: instagram_account where
  "ig_c = \<lparr>ia_id = 3, ia_user_id = 2, ia_instagram_id = ''c'', ia_username = ''cat'',
     ia_profile_picture_url = None, ia_bio = None, ia_followers_count = 9,
     ia_is_selected = True, ia_access_token = ''tc'', ia_created_at = 101\<rparr>"

definition tw_a :: twitter_account where
  "tw_a = \<lparr>ta_id = 1, ta_user_id = 1, ta_twitter_id = ''a'', ta_username = ''ann'',
     ta_profile_picture_url = None, ta_bio = None, ta_followers_count = 7,
     ta_is_selected = True, ta_access_token = ''ta'', ta_refresh_token = None,
     ta_created_at = 100\<rparr>"

definition tw_b :: twitter_account where
  "tw_b = \<lparr>ta_id = 2, ta_user_id = 1, ta_twitter_id = ''b'', ta_username = ''bob'',
     ta_profile_picture_url = None, ta_bio = None, ta_followers_count = 8,
     ta_is_selected = False, ta_access_token = ''tb'', ta_refresh_token = None,
     ta_created_at = 100\<rparr>"

definition tw_c :: twitter_account where
  "tw_c = \<lparr>ta_id = 3, ta_user_id = 2, ta_twitter_id = ''c'', ta_username = ''cat'',
     ta_profile_picture_url = None, ta_bio = None, ta_followers_count = 9,
     ta_is_selected = True, ta_access_token = ''tc'', ta_refresh_token = None,
     ta_created_at = 101\<rparr>"

definition post1 :: scheduled_post where
  "post1 = \<lparr>sp_id = 1, sp_user_id = 1, sp_page_id = Some ''42'', sp_content = ''hello'',
     sp_scheduled_time = 90, sp_status = ''published'', sp_media_url = None,
     sp_facebook_post_id = Some ''old'', sp_published_at = Some 95, sp_created_at = 80\<rparr>"

definition post2 :: scheduled_post where
  "post2 = \<lparr>sp_id = 2, sp_user_id = 2, sp_page_id = Some ''77'', sp_content = ''theirs'',
     sp_scheduled_time = 90, sp_status = ''pending'', sp_media_url = None,
     sp_facebook_post_id = None, sp_published_at = None, sp_created_at = 80\<rparr>"

definition media7 :: instagram_media where
  "media7 = \<lparr>im_id = 1, im_user_id = 1, im_instagram_id = ''a'', im_media_id = ''7'',
     im_caption = Some ''sun'', im_media_type = Some ''IMAGE'', im_media_url = Some ''http://m7'',
     im_likes_count = 4, im_comments_count = 1, im_created_time = 60, im_fetched_at = 100\<rparr>"

definition tweet5 :: twitter_tweet where
  "tweet5 = \<lparr>tt_id = 1, tt_user_id = 1, tt_twitter_id = ''a'', tt_tweet_id = ''5'',
     tt_text = Some ''first'', tt_likes_count = 2, tt_retweets_count = 0, tt_replies_count = 0,
     tt_created_time = 70, tt_fetched_at = 100\<rparr>"

definition sample_db :: db where
  "sample_db = \<lparr>social_accounts =
       [\<lparr>sa_user_id = 1, sa_platform = ''facebook'', sa_access_token = Some ''uf''\<rparr>,
        \<lparr>sa_user_id = 1, sa_platform = ''instagram'', sa_access_token = Some ''ta''\<rparr>,
        \<lparr>sa_user_id = 1, sa_platform = ''twitter'', sa_access_token = Some ''ta''\<rparr>],
     facebook_pages = [page42, page99, page77], facebook_pages_seq = 3,
     scheduled_posts = [post1, post2],
     facebook_insights = [], facebook_insights_seq = 0,
     instagram_accounts = [ig_a, ig_b, ig_c], instagram_accounts_seq = 3,
     instagram_media = [media7], instagram_media_seq = 1,
     twitter_accounts = [tw_a, tw_b, tw_c], twitter_accounts_seq = 3,
     twitter_tweets = [tweet5], twitter_tweets_seq = 1\<rparr>"

text \<open>Provider records: the page of the spec's example with 10 and then 15 followers, and
  records for the sample medium, tweet and accounts with new counts.\<close>

definition page_json_10 :: fb_page_json where
  "page_json_10 = \<lparr>pg_id = Some ''42'', pg_name = Some ''A'', pg_access_token = Some ''tok'',
     pg_picture_url = None, pg_followers_count = Some 10\<rparr>"

definition page_json_15 :: fb_page_json where
  "page_json_15 = \<lparr>pg_id = Some ''42'', pg_name = Some ''A'', pg_access_token = Some ''tok'',
     pg_picture_url = None, pg_followers_count = Some 15\<rparr>"

definition page_json_55 :: fb_page_json where
  "page_json_55 = \<lparr>pg_id = Some ''55'', pg_name = Some ''E'', pg_access_token = Some ''t55'',
     pg_picture_url = None, pg_followers_count = None\<rparr>"

definition media_json_7 :: ig_media_json where
  "media_json_7 = \<lparr>md_id = Some ''7'', md_caption = Some ''sun'', md_media_type = Some ''IMAGE'',
     md_media_url = Some ''http://m7'', md_like_count = Some 9, md_comments_count = Some 2,
     md_timestamp = None\<rparr>"

definition media_json_8 :: ig_media_json where
  "media_json_8 = \<lparr>md_id = Some ''8'', md_caption = None, md_media_type = Some ''VIDEO'',
     md_media_url = None, md_like_count = None, md_comments_count = None,
     md_timestamp = Some 250\<rparr>"

definition tweet_json_5 :: tw_tweet_json where
  "tweet_json_5 = \<lparr>tw_id = Some ''5'', tw_text = Some ''first'', tw_like_count = Some 3,
     tw_retweet_count = Some 1, tw_reply_count = None, tw_created_at = None\<rparr>"

definition tweet_json_6 :: tw_tweet_json where
  "tweet_json_6 = \<lparr>tw_id = Some ''6'', tw_text = Some ''second'', tw_like_count = None,
     tw_retweet_count = None, tw_reply_count = None, tw_created_at = Some 260\<rparr>"

definition ig_user_json_a :: ig_user_json where
  "ig_user_json_a = \<lparr>iu_id = Some ''a'', iu_username = Some ''ann'',
     iu_profile_picture_url = None, iu_biography = Some ''hi'', iu_followers_count = Some 70\<rparr>"

definition tw_user_json_a :: tw_user_json where
  "tw_user_json_a = \<lparr>tu_id = Some ''a'', tu_username = Some ''ann'', tu_description = None,
     tu_profile_image_url = None, tu_followers_count = Some 71\<rparr>"

section \<open>Properties\<close>

subsection \<open>The statements of the store\<close>

lemma distinct_filter_key_le1:
  "distinct (map k t) \<Longrightarrow> length (filter (\<lambda>r. k r = a) t) \<le> Suc 0"
proof (induction t)
  case Nil
  then show ?case by simp
next
  case (Cons x t)
  have "k x = a \<Longrightarrow> filter (\<lambda>r. k r = a) t = []"
    using Cons.prems by (auto simp: filter_empty_conv image_iff)
  with Cons show ?case by auto
qed

lemma sql_returning_after_update:
  assumes "\<And>r. Q (if P r then f r else r) = Q r"
    and "\<And>r. Q r \<Longrightarrow> g (if P r then f r else r) = g r"
  shows "sql_returning Q g (sql_update P f t) = map g (filter Q t)"
proof -
  have "Q \<circ> (\<lambda>r. if P r then f r else r) = Q"
    using assms(1) by (simp add: fun_eq_iff)
  moreover have "map (g \<circ> (\<lambda>r. if P r then f r else r)) (filter Q t) = map g (filter Q t)"
    by (rule map_cong) (use assms(2) in auto)
  ultimately show ?thesis
    by (simp add: sql_returning_def sql_update_def filter_map)
qed

lemma sql_select_after_update:
  assumes "\<And>r. S (if P r then f r else r) = Q r"
    and "\<And>r. Q r \<Longrightarrow> (if P r then f r else r) = g r"
  shows "sql_select S (sql_update P f t) = map g (filter Q t)"
proof -
  have "S \<circ> (\<lambda>r. if P r then f r else r) = Q"
    using assms(1) by (simp add: fun_eq_iff)
  moreover have "map (\<lambda>r. if P r then f r else r) (filter Q t) = map g (filter Q t)"
    by (rule map_cong) (use assms(2) in auto)
  ultimately show ?thesis
    by (simp add: sql_select_def sql_update_def filter_map)
qed

lemma sql_upsert_distinct:
  assumes "distinct (map k t)"
    and "\<And>r. conflict r \<longleftrightarrow> k r = k new"
    and "\<And>r. k (f r) = k r"
  shows "distinct (map k (sql_upsert conflict f new t))"
proof (cases "list_ex conflict t")
  case True
  have "map k (sql_update conflict f t) = map k t"
    by (simp add: sql_update_def assms(3))
  with True assms(1) show ?thesis by (simp add: sql_upsert_def)
next
  case False
  then have "k new \<notin> set (map k t)"
    by (auto simp: list_ex_iff assms(2))
  with False assms(1) show ?thesis by (simp add: sql_upsert_def)
qed

subsection \<open>facebookRoutes.js: select and selected\<close>

lemma fb_select_eq:
  assumes "truthy_str pageId"
  shows "facebook_pages_select pageId u d =
     ((case filter (\<lambda>r. fp_user_id r = u \<and> Some (fp_page_id r) = pageId) (facebook_pages d) of
         [] \<Rightarrow> Err 404 ''Page not found''
       | r # _ \<Rightarrow> Json (''Page selected'', r\<lparr>fp_is_selected := True\<rparr>)),
      d\<lparr>facebook_pages :=
          map (\<lambda>r. if fp_user_id r = u then r\<lparr>fp_is_selected := (Some (fp_page_id r) = pageId)\<rparr> else r)
            (facebook_pages d)\<rparr>)"
proof -
  let ?P = "\<lambda>r. fp_user_id r = u"
  let ?Q = "\<lambda>r. fp_user_id r = u \<and> Some (fp_page_id r) = pageId"
  have ret: "sql_returning ?Q (\<lambda>r. r\<lparr>fp_is_selected := True\<rparr>)
               (sql_update ?P (\<lambda>r. r\<lparr>fp_is_selected := False\<rparr>) (facebook_pages d))
             = map (\<lambda>r. r\<lparr>fp_is_selected := True\<rparr>) (filter ?Q (facebook_pages d))"
    by (rule sql_returning_after_update) auto
  have upd: "sql_update ?Q (\<lambda>r. r\<lparr>fp_is_selected := True\<rparr>)
               (sql_update ?P (\<lambda>r. r\<lparr>fp_is_selected := False\<rparr>) (facebook_pages d))
             = map (\<lambda>r. if fp_user_id r = u then r\<lparr>fp_is_selected := (Some (fp_page_id r) = pageId)\<rparr> else r)
                 (facebook_pages d)"
    by (auto simp: sql_update_def)
  show ?thesis
    using assms by (simp add: facebook_pages_select_def Let_def ret upd split: list.splits)
qed

lemma fb_select_selected_rows:
  assumes "truthy_str pageId"
  shows "facebook_pages_selected_rows u (snd (facebook_pages_select pageId u d))
   = map (\<lambda>r. r\<lparr>fp_is_selected := True\<rparr>)
       (filter (\<lambda>r. fp_user_id r = u \<and> Some (fp_page_id r) = pageId) (facebook_pages d))"
proof -
  have "sql_select (\<lambda>r. fp_user_id r = u \<and> fp_is_selected r)
          (sql_update (\<lambda>r. fp_user_id r = u) (\<lambda>r. r\<lparr>fp_is_selected := (Some (fp_page_id r) = pageId)\<rparr>)
             (facebook_pages d))
        = map (\<lambda>r. r\<lparr>fp_is_selected := True\<rparr>)
            (filter (\<lambda>r. fp_user_id r = u \<and> Some (fp_page_id r) = pageId) (facebook_pages d))"
    by (rule sql_select_after_update) auto
  then show ?thesis
    by (simp add: fb_select_eq[OF assms] sql_update_def facebook_pages_selected_rows_def)
qed

lemma fb_select_Json:
  assumes "facebook_pages_select pageId u d = (Json x, d')"
  shows "truthy_str pageId"
    and "filter (\<lambda>r. fp_user_id r = u \<and> Some (fp_page_id r) = pageId) (facebook_pages d) \<noteq> []"
proof -
  show t: "truthy_str pageId"
    using assms by (auto simp: facebook_pages_select_def split: if_splits)
  show "filter (\<lambda>r. fp_user_id r = u \<and> Some (fp_page_id r) = pageId) (facebook_pages d) \<noteq> []"
    using assms unfolding fb_select_eq[OF t] by (auto split: list.splits)
qed

lemma fb_select_unique:
  assumes "facebook_pages_unique (facebook_pages d)"
  shows "facebook_pages_unique (facebook_pages (snd (facebook_pages_select pageId u d)))"
proof (cases "truthy_str pageId")
  case True
  have "map (\<lambda>r. (fp_user_id r, fp_page_id r)) (facebook_pages (snd (facebook_pages_select pageId u d)))
     = map (\<lambda>r. (fp_user_id r, fp_page_id r)) (facebook_pages d)"
    by (simp add: fb_select_eq[OF True] comp_def)
  with assms show ?thesis by (simp add: facebook_pages_unique_def)
next
  case False
  with assms show ?thesis
    by (simp add: facebook_pages_select_def)
qed

lemma fb_select_then_selected:
  assumes ok: "facebook_pages_select pageId u d = (Json x, d')"
  shows "\<exists>r. facebook_pages_selected u d' = Json (Some r) \<and> Some (fp_page_id r) = pageId \<and> fp_user_id r = u"
proof -
  let ?hit = "\<lambda>r. fp_user_id r = u \<and> Some (fp_page_id r) = pageId"
  note t = fb_select_Json(1)[OF ok] and ne = fb_select_Json(2)[OF ok]
  from ne obtain r rs where r: "filter ?hit (facebook_pages d) = r # rs"
    by (cases "filter ?hit (facebook_pages d)") auto
  then have "r \<in> set (filter ?hit (facebook_pages d))" by simp
  then have "?hit r" by simp
  moreover have "d' = snd (facebook_pages_select pageId u d)" using ok by simp
  ultimately show ?thesis
    using fb_select_selected_rows[OF t, of u d] r
    by (simp add: facebook_pages_selected_def facebook_pages_selected_rows_def)
qed

lemma fb_select_exactly_one:
  assumes u: "facebook_pages_unique (facebook_pages d)"
    and ok: "facebook_pages_select pageId u d = (Json x, d')"
  shows "\<exists>r. facebook_pages_selected_rows u d' = [r] \<and> Some (fp_page_id r) = pageId"
proof -
  let ?hit = "\<lambda>r. fp_user_id r = u \<and> Some (fp_page_id r) = pageId"
  note t = fb_select_Json(1)[OF ok] and ne = fb_select_Json(2)[OF ok]
  from t obtain pid where pid: "pageId = Some pid"
    by (cases pageId) (auto simp: truthy_str_def)
  have "filter ?hit (facebook_pages d)
          = filter (\<lambda>r. (fp_user_id r, fp_page_id r) = (u, pid)) (facebook_pages d)"
    by (simp add: pid)
  moreover have "length (filter (\<lambda>r. (fp_user_id r, fp_page_id r) = (u, pid)) (facebook_pages d)) \<le> Suc 0"
    using u unfolding facebook_pages_unique_def by (rule distinct_filter_key_le1)
  ultimately have "length (filter ?hit (facebook_pages d)) \<le> Suc 0"
    by simp
  with ne obtain r where r: "filter ?hit (facebook_pages d) = [r]"
    by (cases "filter ?hit (facebook_pages d)") auto
  then have "r \<in> set (filter ?hit (facebook_pages d))" by simp
  then have "Some (fp_page_id r) = pageId" by simp
  moreover have "d' = snd (facebook_pages_select pageId u d)" using ok by simp
  ultimately show ?thesis
    using fb_select_selected_rows[OF t, of u d] r by simp
qed

lemma fb_select_twice:
  assumes u: "facebook_pages_unique (facebook_pages d)"
    and ok1: "facebook_pages_select (Some R) u d = (Json x, d1)"
    and ok2: "facebook_pages_select (Some R') u d1 = (Json y, d2)"
  shows "(\<exists>r. facebook_pages_selected u d1 = Json (Some r) \<and> fp_page_id r = R \<and> fp_user_id r = u)
       \<and> (\<exists>r. facebook_pages_selected_rows u d1 = [r] \<and> fp_page_id r = R)
       \<and> (\<exists>r. facebook_pages_selected_rows u d2 = [r] \<and> fp_page_id r = R')
       \<and> (\<exists>r. facebook_pages_selected u d2 = Json (Some r) \<and> fp_page_id r = R' \<and> fp_user_id r = u)"
proof -
  have u1: "facebook_pages_unique (facebook_pages d1)"
    using fb_select_unique[OF u, of "Some R" u] ok1 by simp
  show ?thesis
    using fb_select_then_selected[OF ok1] fb_select_exactly_one[OF u ok1]
      fb_select_exactly_one[OF u1 ok2] fb_select_then_selected[OF ok2]
    by simp
qed

lemma fb_select_404_clears:
  assumes "facebook_pages_select pageId u d = (Err 404 m, d')"
  shows "facebook_pages_selected_rows u d' = [] \<and> facebook_pages_selected u d' = Json None"
proof -
  have t: "truthy_str pageId"
    using assms by (auto simp: facebook_pages_select_def split: if_splits)
  have "filter (\<lambda>r. fp_user_id r = u \<and> Some (fp_page_id r) = pageId) (facebook_pages d) = []"
    using assms unfolding fb_select_eq[OF t] by (auto split: list.splits)
  moreover have "d' = snd (facebook_pages_select pageId u d)" using assms by simp
  ultimately show ?thesis
    using fb_select_selected_rows[OF t, of u d]
    by (simp add: facebook_pages_selected_def facebook_pages_selected_rows_def)
qed

lemma fb_select_foreign_404:
  assumes "truthy_str pageId"
    and "\<not> list_ex (\<lambda>r. fp_user_id r = u \<and> Some (fp_page_id r) = pageId) (facebook_pages d)"
  shows "fst (facebook_pages_select pageId u d) = Err 404 ''Page not found''"
proof -
  have "filter (\<lambda>r. fp_user_id r = u \<and> Some (fp_page_id r) = pageId) (facebook_pages d) = []"
    using assms(2) by (auto simp: list_ex_iff filter_empty_conv)
  then show ?thesis by (simp add: fb_select_eq[OF assms(1)])
qed

subsection \<open>instagramRoutes.js: select and selected\<close>

lemma ig_select_eq:
  assumes "truthy_str instagramId"
  shows "instagram_accounts_select instagramId u d =
     ((case filter (\<lambda>r. ia_user_id r = u \<and> Some (ia_instagram_id r) = instagramId) (instagram_accounts d) of
         [] \<Rightarrow> Err 404 ''Instagram account not found''
       | r # _ \<Rightarrow> Json (''Instagram account selected'', r\<lparr>ia_is_selected := True\<rparr>)),
      d\<lparr>instagram_accounts :=
          map (\<lambda>r. if ia_user_id r = u then r\<lparr>ia_is_selected := (Some (ia_instagram_id r) = instagramId)\<rparr> else r)
            (instagram_accounts d)\<rparr>)"
proof -
  let ?P = "\<lambda>r. ia_user_id r = u"
  let ?Q = "\<lambda>r. ia_user_id r = u \<and> Some (ia_instagram_id r) = instagramId"
  have ret: "sql_returning ?Q (\<lambda>r. r\<lparr>ia_is_selected := True\<rparr>)
               (sql_update ?P (\<lambda>r. r\<lparr>ia_is_selected := False\<rparr>) (instagram_accounts d))
             = map (\<lambda>r. r\<lparr>ia_is_selected := True\<rparr>) (filter ?Q (instagram_accounts d))"
    by (rule sql_returning_after_update) auto
  have upd: "sql_update ?Q (\<lambda>r. r\<lparr>ia_is_selected := True\<rparr>)
               (sql_update ?P (\<lambda>r. r\<lparr>ia_is_selected := False\<rparr>) (instagram_accounts d))
             = map (\<lambda>r. if ia_user_id r = u then r\<lparr>ia_is_selected := (Some (ia_instagram_id r) = instagramId)\<rparr> else r)
                 (instagram_accounts d)"
    by (auto simp: sql_update_def)
  show ?thesis
    using assms by (simp add: instagram_accounts_select_def Let_def ret upd split: list.splits)
qed

lemma ig_select_selected_rows:
  assumes "truthy_str instagramId"
  shows "instagram_accounts_selected_rows u (snd (instagram_accounts_select instagramId u d))
   = map (\<lambda>r. r\<lparr>ia_is_selected := True\<rparr>)
       (filter (\<lambda>r. ia_user_id r = u \<and> Some (ia_instagram_id r) = instagramId) (instagram_accounts d))"
proof -
  have "sql_select (\<lambda>r. ia_user_id r = u \<and> ia_is_selected r)
          (sql_update (\<lambda>r. ia_user_id r = u) (\<lambda>r. r\<lparr>ia_is_selected := (Some (ia_instagram_id r) = instagramId)\<rparr>)
             (instagram_accounts d))
        = map (\<lambda>r. r\<lparr>ia_is_selected := True\<rparr>)
            (filter (\<lambda>r. ia_user_id r = u \<and> Some (ia_instagram_id r) = instagramId) (instagram_accounts d))"
    by (rule sql_select_after_update) auto
  then show ?thesis
    by (simp add: ig_select_eq[OF assms] sql_update_def instagram_accounts_selected_rows_def)
qed

lemma ig_select_Json:
  assumes "instagram_accounts_select instagramId u d = (Json x, d')"
  shows "truthy_str instagramId"
    and "filter (\<lambda>r. ia_user_id r = u \<and> Some (ia_instagram_id r) = instagramId) (instagram_accounts d) \<noteq> []"
proof -
  show t: "truthy_str instagramId"
    using assms by (auto simp: instagram_accounts_select_def split: if_splits)
  show "filter (\<lambda>r. ia_user_id r = u \<and> Some (ia_instagram_id r) = instagramId) (instagram_accounts d) \<noteq> []"
    using assms unfolding ig_select_eq[OF t] by (auto split: list.splits)
qed

lemma ig_select_unique:
  assumes "instagram_accounts_unique (instagram_accounts d)"
  shows "instagram_accounts_unique (instagram_accounts (snd (instagram_accounts_select instagramId u d)))"
proof (cases "truthy_str instagramId")
  case True
  have "map (\<lambda>r. (ia_user_id r, ia_instagram_id r)) (instagram_accounts (snd (instagram_accounts_select instagramId u d)))
     = map (\<lambda>r. (ia_user_id r, ia_instagram_id r)) (instagram_accounts d)"
    by (simp add: ig_select_eq[OF True] comp_def)
  with assms show ?thesis by (simp add: instagram_accounts_unique_def)
next
  case False
  with assms show ?thesis
    by (simp add: instagram_accounts_select_def)
qed

lemma ig_select_then_selected:
  assumes ok: "instagram_accounts_select instagramId u d = (Json x, d')"
  shows "\<exists>r. instagram_accounts_selected u d' = Json (Some r) \<and> Some (ia_instagram_id r) = instagramId \<and> ia_user_id r = u"
proof -
  let ?hit = "\<lambda>r. ia_user_id r = u \<and> Some (ia_instagram_id r) = instagramId"
  note t = ig_select_Json(1)[OF ok] and ne = ig_select_Json(2)[OF ok]
  from ne obtain r rs where r: "filter ?hit (instagram_accounts d) = r # rs"
    by (cases "filter ?hit (instagram_accounts d)") auto
  then have "r \<in> set (filter ?hit (instagram_accounts d))" by simp
  then have "?hit r" by simp
  moreover have "d' = snd (instagram_accounts_select instagramId u d)" using ok by simp
  ultimately show ?thesis
    using ig_select_selected_rows[OF t, of u d] r
    by (simp add: instagram_accounts_selected_def instagram_accounts_selected_rows_def)
qed

lemma ig_select_exactly_one:
  assumes u: "instagram_accounts_unique (instagram_accounts d)"
    and ok: "instagram_accounts_select instagramId u d = (Json x, d')"
  shows "\<exists>r. instagram_accounts_selected_rows u d' = [r] \<and> Some (ia_instagram_id r) = instagramId"
proof -
  let ?hit = "\<lambda>r. ia_user_id r = u \<and> Some (ia_instagram_id r) = instagramId"
  note t = ig_select_Json(1)[OF ok] and ne = ig_select_Json(2)[OF ok]
  from t obtain pid where pid: "instagramId = Some pid"
    by (cases instagramId) (auto simp: truthy_str_def)
  have "filter ?hit (instagram_accounts d)
          = filter (\<lambda>r. (ia_user_id r, ia_instagram_id r) = (u, pid)) (instagram_accounts d)"
    by (simp add: pid)
  moreover have "length (filter (\<lambda>r. (ia_user_id r, ia_instagram_id r) = (u, pid)) (instagram_accounts d)) \<le> Suc 0"
    using u unfolding instagram_accounts_unique_def by (rule distinct_filter_key_le1)
  ultimately have "length (filter ?hit (instagram_accounts d)) \<le> Suc 0"
    by simp
  with ne obtain r where r: "filter ?hit (instagram_accounts d) = [r]"
    by (cases "filter ?hit (instagram_accounts d)") auto
  then have "r \<in> set (filter ?hit (instagram_accounts d))" by simp
  then have "Some (ia_instagram_id r) = instagramId" by simp
  moreover have "d' = snd (instagram_accounts_select instagramId u d)" using ok by simp
  ultimately show ?thesis
    using ig_select_selected_rows[OF t, of u d] r by simp
qed

lemma ig_select_twice:
  assumes u: "instagram_accounts_unique (instagram_accounts d)"
    and ok1: "instagram_accounts_select (Some R) u d = (Json x, d1)"
    and ok2: "instagram_accounts_select (Some R') u d1 = (Json y, d2)"
  shows "(\<exists>r. instagram_accounts_selected u d1 = Json (Some r) \<and> ia_instagram_id r = R \<and> ia_user_id r = u)
       \<and> (\<exists>r. instagram_accounts_selected_rows u d1 = [r] \<and> ia_instagram_id r = R)
       \<and> (\<exists>r. instagram_accounts_selected_rows u d2 = [r] \<and> ia_instagram_id r = R')
       \<and> (\<exists>r. instagram_accounts_selected u d2 = Json (Some r) \<and> ia_instagram_id r = R' \<and> ia_user_id r = u)"
proof -
  have u1: "instagram_accounts_unique (instagram_accounts d1)"
    using ig_select_unique[OF u, of "Some R" u] ok1 by simp
  show ?thesis
    using ig_select_then_selected[OF ok1] ig_select_exactly_one[OF u ok1]
      ig_select_exactly_one[OF u1 ok2] ig_select_then_selected[OF ok2]
    by simp
qed

lemma ig_select_404_clears:
  assumes "instagram_accounts_select instagramId u d = (Err 404 m, d')"
  shows "instagram_accounts_selected_rows u d' = [] \<and> instagram_accounts_selected u d' = Json None"
proof -
  have t: "truthy_str instagramId"
    using assms by (auto simp: instagram_accounts_select_def split: if_splits)
  have "filter (\<lambda>r. ia_user_id r = u \<and> Some (ia_instagram_id r) = instagramId) (instagram_accounts d) = []"
    using assms unfolding ig_select_eq[OF t] by (auto split: list.splits)
  moreover have "d' = snd (instagram_accounts_select instagramId u d)" using assms by simp
  ultimately show ?thesis
    using ig_select_selected_rows[OF t, of u d]
    by (simp add: instagram_accounts_selected_def instagram_accounts_selected_rows_def)
qed

lemma ig_select_foreign_404:
  assumes "truthy_str instagramId"
    and "\<not> list_ex (\<lambda>r. ia_user_id r = u \<and> Some (ia_instagram_id r) = instagramId) (instagram_accounts d)"
  shows "fst (instagram_accounts_select instagramId u d) = Err 404 ''Instagram account not found''"
proof -
  have "filter (\<lambda>r. ia_user_id r = u \<and> Some (ia_instagram_id r) = instagramId) (instagram_accounts d) = []"
    using assms(2) by (auto simp: list_ex_iff filter_empty_conv)
  then show ?thesis by (simp add: ig_select_eq[OF assms(1)])
qed

subsection \<open>twitterRoutes.js: select and selected\<close>

lemma tw_select_eq:
  assumes "truthy_str twitterId"
  shows "twitter_accounts_select twitterId u d =
     ((case filter (\<lambda>r. ta_user_id r = u \<and> Some (ta_twitter_id r) = twitterId) (twitter_accounts d) of
         [] \<Rightarrow> Err 404 ''Twitter account not found''
       | r # _ \<Rightarrow> Json (''Twitter account selected'', r\<lparr>ta_is_selected := True\<rparr>)),
      d\<lparr>twitter_accounts :=
          map (\<lambda>r. if ta_user_id r = u then r\<lparr>ta_is_selected := (Some (ta_twitter_id r) = twitterId)\<rparr> else r)
            (twitter_accounts d)\<rparr>)"
proof -
  let ?P = "\<lambda>r. ta_user_id r = u"
  let ?Q = "\<lambda>r. ta_user_id r = u \<and> Some (ta_twitter_id r) = twitterId"
  have ret: "sql_returning ?Q (\<lambda>r. r\<lparr>ta_is_selected := True\<rparr>)
               (sql_update ?P (\<lambda>r. r\<lparr>ta_is_selected := False\<rparr>) (twitter_accounts d))
             = map (\<lambda>r. r\<lparr>ta_is_selected := True\<rparr>) (filter ?Q (twitter_accounts d))"
    by (rule sql_returning_after_update) auto
  have upd: "sql_update ?Q (\<lambda>r. r\<lparr>ta_is_selected := True\<rparr>)
               (sql_update ?P (\<lambda>r. r\<lparr>ta_is_selected := False\<rparr>) (twitter_accounts d))
             = map (\<lambda>r. if ta_user_id r = u then r\<lparr>ta_is_selected := (Some (ta_twitter_id r) = twitterId)\<rparr> else r)
                 (twitter_accounts d)"
    by (auto simp: sql_update_def)
  show ?thesis
    using assms by (simp add: twitter_accounts_select_def Let_def ret upd split: list.splits)
qed

lemma tw_select_selected_rows:
  assumes "truthy_str twitterId"
  shows "twitter_accounts_selected_rows u (snd (twitter_accounts_select twitterId u d))
   = map (\<lambda>r. r\<lparr>ta_is_selected := True\<rparr>)
       (filter (\<lambda>r. ta_user_id r = u \<and> Some (ta_twitter_id r) = twitterId) (twitter_accounts d))"
proof -
  have "sql_select (\<lambda>r. ta_user_id r = u \<and> ta_is_selected r)
          (sql_update (\<lambda>r. ta_user_id r = u) (\<lambda>r. r\<lparr>ta_is_selected := (Some (ta_twitter_id r) = twitterId)\<rparr>)
             (twitter_accounts d))
        = map (\<lambda>r. r\<lparr>ta_is_selected := True\<rparr>)
            (filter (\<lambda>r. ta_user_id r = u \<and> Some (ta_twitter_id r) = twitterId) (twitter_accounts d))"
    by (rule sql_select_after_update) auto
  then show ?thesis
    by (simp add: tw_select_eq[OF assms] sql_update_def twitter_accounts_selected_rows_def)
qed

lemma tw_select_Json:
  assumes "twitter_accounts_select twitterId u d = (Json x, d')"
  shows "truthy_str twitterId"
    and "filter (\<lambda>r. ta_user_id r = u \<and> Some (ta_twitter_id r) = twitterId) (twitter_accounts d) \<noteq> []"
proof -
  show t: "truthy_str twitterId"
    using assms by (auto simp: twitter_accounts_select_def split: if_splits)
  show "filter (\<lambda>r. ta_user_id r = u \<and> Some (ta_twitter_id r) = twitterId) (twitter_accounts d) \<noteq> []"
    using assms unfolding tw_select_eq[OF t] by (auto split: list.splits)
qed

lemma tw_select_unique:
  assumes "twitter_accounts_unique (twitter_accounts d)"
  shows "twitter_accounts_unique (twitter_accounts (snd (twitter_accounts_select twitterId u d)))"
proof (cases "truthy_str twitterId")
  case True
  have "map (\<lambda>r. (ta_user_id r, ta_twitter_id r)) (twitter_accounts (snd (twitter_accounts_select twitterId u d)))
     = map (\<lambda>r. (ta_user_id r, ta_twitter_id r)) (twitter_accounts d)"
    by (simp add: tw_select_eq[OF True] comp_def)
  with assms show ?thesis by (simp add: twitter_accounts_unique_def)
next
  case False
  with assms show ?thesis
    by (simp add: twitter_accounts_select_def)
qed

lemma tw_select_then_selected:
  assumes ok: "twitter_accounts_select twitterId u d = (Json x, d')"
  shows "\<exists>r. twitter_accounts_selected u d' = Json (Some r) \<and> Some (ta_twitter_id r) = twitterId \<and> ta_user_id r = u"
proof -
  let ?hit = "\<lambda>r. ta_user_id r = u \<and> Some (ta_twitter_id r) = twitterId"
  note t = tw_select_Json(1)[OF ok] and ne = tw_select_Json(2)[OF ok]
  from ne obtain r rs where r: "filter ?hit (twitter_accounts d) = r # rs"
    by (cases "filter ?hit (twitter_accounts d)") auto
  then have "r \<in> set (filter ?hit (twitter_accounts d))" by simp
  then have "?hit r" by simp
  moreover have "d' = snd (twitter_accounts_select twitterId u d)" using ok by simp
  ultimately show ?thesis
    using tw_select_selected_rows[OF t, of u d] r
    by (simp add: twitter_accounts_selected_def twitter_accounts_selected_rows_def)
qed

lemma tw_select_exactly_one:
  assumes u: "twitter_accounts_unique (twitter_accounts d)"
    and ok: "twitter_accounts_select twitterId u d = (Json x, d')"
  shows "\<exists>r. twitter_accounts_selected_rows u d' = [r] \<and> Some (ta_twitter_id r) = twitterId"
proof -
  let ?hit = "\<lambda>r. ta_user_id r = u \<and> Some (ta_twitter_id r) = twitterId"
  note t = tw_select_Json(1)[OF ok] and ne = tw_select_Json(2)[OF ok]
  from t obtain pid where pid: "twitterId = Some pid"
    by (cases twitterId) (auto simp: truthy_str_def)
  have "filter ?hit (twitter_accounts d)
          = filter (\<lambda>r. (ta_user_id r, ta_twitter_id r) = (u, pid)) (twitter_accounts d)"
    by (simp add: pid)
  moreover have "length (filter (\<lambda>r. (ta_user_id r, ta_twitter_id r) = (u, pid)) (twitter_accounts d)) \<le> Suc 0"
    using u unfolding twitter_accounts_unique_def by (rule distinct_filter_key_le1)
  ultimately have "length (filter ?hit (twitter_accounts d)) \<le> Suc 0"
    by simp
  with ne obtain r where r: "filter ?hit (twitter_accounts d) = [r]"
    by (cases "filter ?hit (twitter_accounts d)") auto
  then have "r \<in> set (filter ?hit (twitter_accounts d))" by simp
  then have "Some (ta_twitter_id r) = twitterId" by simp
  moreover have "d' = snd (twitter_accounts_select twitterId u d)" using ok by simp
  ultimately show ?thesis
    using tw_select_selected_rows[OF t, of u d] r by simp
qed

lemma tw_select_twice:
  assumes u: "twitter_accounts_unique (twitter_accounts d)"
    and ok1: "twitter_accounts_select (Some R) u d = (Json x, d1)"
    and ok2: "twitter_accounts_select (Some R') u d1 = (Json y, d2)"
  shows "(\<exists>r. twitter_accounts_selected u d1 = Json (Some r) \<and> ta_twitter_id r = R \<and> ta_user_id r = u)
       \<and> (\<exists>r. twitter_accounts_selected_rows u d1 = [r] \<and> ta_twitter_id r = R)
       \<and> (\<exists>r. twitter_accounts_selected_rows u d2 = [r] \<and> ta_twitter_id r = R')
       \<and> (\<exists>r. twitter_accounts_selected u d2 = Json (Some r) \<and> ta_twitter_id r = R' \<and> ta_user_id r = u)"
proof -
  have u1: "twitter_accounts_unique (twitter_accounts d1)"
    using tw_select_unique[OF u, of "Some R" u] ok1 by simp
  show ?thesis
    using tw_select_then_selected[OF ok1] tw_select_exactly_one[OF u ok1]
      tw_select_exactly_one[OF u1 ok2] tw_select_then_selected[OF ok2]
    by simp
qed

lemma tw_select_404_clears:
  assumes "twitter_accounts_select twitterId u d = (Err 404 m, d')"
  shows "twitter_accounts_selected_rows u d' = [] \<and> twitter_accounts_selected u d' = Json None"
proof -
  have t: "truthy_str twitterId"
    using assms by (auto simp: twitter_accounts_select_def split: if_splits)
  have "filter (\<lambda>r. ta_user_id r = u \<and> Some (ta_twitter_id r) = twitterId) (twitter_accounts d) = []"
    using assms unfolding tw_select_eq[OF t] by (auto split: list.splits)
  moreover have "d' = snd (twitter_accounts_select twitterId u d)" using assms by simp
  ultimately show ?thesis
    using tw_select_selected_rows[OF t, of u d]
    by (simp add: twitter_accounts_selected_def twitter_accounts_selected_rows_def)
qed

lemma tw_select_foreign_404:
  assumes "truthy_str twitterId"
    and "\<not> list_ex (\<lambda>r. ta_user_id r = u \<and> Some (ta_twitter_id r) = twitterId) (twitter_accounts d)"
  shows "fst (twitter_accounts_select twitterId u d) = Err 404 ''Twitter account not found''"
proof -
  have "filter (\<lambda>r. ta_user_id r = u \<and> Some (ta_twitter_id r) = twitterId) (twitter_accounts d) = []"
    using assms(2) by (auto simp: list_ex_iff filter_empty_conv)
  then show ?thesis by (simp add: tw_select_eq[OF assms(1)])
qed

subsection \<open>Selection state\<close>

lemmas sample_defs = sample_db_def page42_def page99_def page77_def ig_a_def ig_b_def ig_c_def
  tw_a_def tw_b_def tw_c_def post1_def post2_def media7_def tweet5_def

lemmas select_eval = facebook_pages_select_def facebook_pages_selected_def
  facebook_pages_selected_rows_def facebook_pages_unique_def
  instagram_accounts_select_def instagram_accounts_selected_def
  instagram_accounts_selected_rows_def instagram_accounts_unique_def
  twitter_accounts_select_def twitter_accounts_selected_def
  twitter_accounts_selected_rows_def twitter_accounts_unique_def
  truthy_str_def sql_update_def sql_returning_def sql_select_def

text \<open>
  C2. The claim: selecting a resource that is not the owner's fails with NotFound and
  leaves the owner's selection as it was. The routes clear the owner's flags first and look
  for the resource afterwards, so the 404 comes with the selection gone: owner 1 has page
  ''42'' (account ''a'') selected, asks for a page (account) of owner 2, is answered 404
  and has nothing selected any more.
\<close>

theorem select_foreign_resource_clears_selection:
  "facebook_pages_selected 1 sample_db = Json (Some page42)
   \<and> fst (facebook_pages_select (Some ''77'') 1 sample_db) = Err 404 ''Page not found''
   \<and> facebook_pages_selected 1 (snd (facebook_pages_select (Some ''77'') 1 sample_db)) = Json None
   \<and> instagram_accounts_selected 1 sample_db = Json (Some ig_a)
   \<and> fst (instagram_accounts_select (Some ''c'') 1 sample_db)
         = Err 404 ''Instagram account not found''
   \<and> instagram_accounts_selected 1 (snd (instagram_accounts_select (Some ''c'') 1 sample_db))
         = Json None
   \<and> twitter_accounts_selected 1 sample_db = Json (Some tw_a)
   \<and> fst (twitter_accounts_select (Some ''c'') 1 sample_db) = Err 404 ''Twitter account not found''
   \<and> twitter_accounts_selected 1 (snd (twitter_accounts_select (Some ''c'') 1 sample_db))
         = Json None"
  by (simp add: select_eval sample_defs)

text \<open>
  C3. On a table that satisfies its \<^verbatim>\<open>UNIQUE(user_id, native id)\<close> constraint: after a
  successful select of \<open>R\<close>, selected returns the owner's row \<open>R\<close>; after a further
  successful select of \<open>R'\<close>, exactly one row of the owner carries the flag, the row \<open>R'\<close>.
\<close>

theorem select_then_selected_exactly_one:
  "(facebook_pages_unique (facebook_pages d)
      \<and> facebook_pages_select (Some R) u d = (Json x, d1)
      \<and> facebook_pages_select (Some R') u d1 = (Json y, d2)
    \<longrightarrow> (\<exists>r. facebook_pages_selected u d1 = Json (Some r) \<and> fp_page_id r = R \<and> fp_user_id r = u)
      \<and> (\<exists>r. facebook_pages_selected_rows u d2 = [r] \<and> fp_page_id r = R'))
 \<and> (instagram_accounts_unique (instagram_accounts e)
      \<and> instagram_accounts_select (Some S) v e = (Json xi, e1)
      \<and> instagram_accounts_select (Some S') v e1 = (Json yi, e2)
    \<longrightarrow> (\<exists>r. instagram_accounts_selected v e1 = Json (Some r) \<and> ia_instagram_id r = S
              \<and> ia_user_id r = v)
      \<and> (\<exists>r. instagram_accounts_selected_rows v e2 = [r] \<and> ia_instagram_id r = S'))
 \<and> (twitter_accounts_unique (twitter_accounts g)
      \<and> twitter_accounts_select (Some T) w g = (Json xt, g1)
      \<and> twitter_accounts_select (Some T') w g1 = (Json yt, g2)
    \<longrightarrow> (\<exists>r. twitter_accounts_selected w g1 = Json (Some r) \<and> ta_twitter_id r = T
              \<and> ta_user_id r = w)
      \<and> (\<exists>r. twitter_accounts_selected_rows w g2 = [r] \<and> ta_twitter_id r = T'))"
  using fb_select_twice[of d R u x d1 R' y d2] ig_select_twice[of e S v xi e1 S' yi e2]
    tw_select_twice[of g T w xt g1 T' yt g2]
  by blast

theorem select_then_selected_exactly_one_witness:
  "facebook_pages_unique (facebook_pages sample_db)
   \<and> fst (facebook_pages_select (Some ''42'') 1 sample_db) = Json (''Page selected'', page42)
   \<and> fst (facebook_pages_select (Some ''99'') 1 (snd (facebook_pages_select (Some ''42'') 1 sample_db)))
        = Json (''Page selected'', page99\<lparr>fp_is_selected := True\<rparr>)
   \<and> (\<exists>r. facebook_pages_selected 1 (snd (facebook_pages_select (Some ''42'') 1 sample_db))
             = Json (Some r) \<and> fp_page_id r = ''42'' \<and> fp_user_id r = 1)
   \<and> (\<exists>r. facebook_pages_selected_rows 1
             (snd (facebook_pages_select (Some ''99'') 1
                (snd (facebook_pages_select (Some ''42'') 1 sample_db)))) = [r]
           \<and> fp_page_id r = ''99'')
   \<and> instagram_accounts_unique (instagram_accounts sample_db)
   \<and> fst (instagram_accounts_select (Some ''a'') 1 sample_db)
        = Json (''Instagram account selected'', ig_a)
   \<and> fst (instagram_accounts_select (Some ''b'') 1
             (snd (instagram_accounts_select (Some ''a'') 1 sample_db)))
        = Json (''Instagram account selected'', ig_b\<lparr>ia_is_selected := True\<rparr>)
   \<and> (\<exists>r. instagram_accounts_selected_rows 1
             (snd (instagram_accounts_select (Some ''b'') 1
                (snd (instagram_accounts_select (Some ''a'') 1 sample_db)))) = [r]
           \<and> ia_instagram_id r = ''b'')
   \<and> twitter_accounts_unique (twitter_accounts sample_db)
   \<and> fst (twitter_accounts_select (Some ''a'') 1 sample_db)
        = Json (''Twitter account selected'', tw_a)
   \<and> fst (twitter_accounts_select (Some ''b'') 1
             (snd (twitter_accounts_select (Some ''a'') 1 sample_db)))
        = Json (''Twitter account selected'', tw_b\<lparr>ta_is_selected := True\<rparr>)
   \<and> (\<exists>r. twitter_accounts_selected_rows 1
             (snd (twitter_accounts_select (Some ''b'') 1
                (snd (twitter_accounts_select (Some ''a'') 1 sample_db)))) = [r]
           \<and> ta_twitter_id r = ''b'')"
proof -
  let ?f1 = "facebook_pages_select (Some ''42'') 1 sample_db"
  let ?f2 = "facebook_pages_select (Some ''99'') 1 (snd ?f1)"
  let ?i1 = "instagram_accounts_select (Some ''a'') 1 sample_db"
  let ?i2 = "instagram_accounts_select (Some ''b'') 1 (snd ?i1)"
  let ?t1 = "twitter_accounts_select (Some ''a'') 1 sample_db"
  let ?t2 = "twitter_accounts_select (Some ''b'') 1 (snd ?t1)"
  have uf: "facebook_pages_unique (facebook_pages sample_db)"
    and ui: "instagram_accounts_unique (instagram_accounts sample_db)"
    and ut: "twitter_accounts_unique (twitter_accounts sample_db)"
    by (simp_all add: select_eval sample_defs)
  have f1: "?f1 = (Json (''Page selected'', page42), snd ?f1)"
    and f2: "?f2 = (Json (''Page selected'', page99\<lparr>fp_is_selected := True\<rparr>), snd ?f2)"
    by (simp_all add: select_eval sample_defs)
  have i1: "?i1 = (Json (''Instagram account selected'', ig_a), snd ?i1)"
    and i2: "?i2 = (Json (''Instagram account selected'', ig_b\<lparr>ia_is_selected := True\<rparr>), snd ?i2)"
    by (simp_all add: select_eval sample_defs)
  have t1: "?t1 = (Json (''Twitter account selected'', tw_a), snd ?t1)"
    and t2: "?t2 = (Json (''Twitter account selected'', tw_b\<lparr>ta_is_selected := True\<rparr>), snd ?t2)"
    by (simp_all add: select_eval sample_defs)
  note inst = select_then_selected_exactly_one
    [of sample_db "''42''" 1 "(''Page selected'', page42)" "snd ?f1" "''99''"
        "(''Page selected'', page99\<lparr>fp_is_selected := True\<rparr>)" "snd ?f2"
        sample_db "''a''" 1 "(''Instagram account selected'', ig_a)" "snd ?i1" "''b''"
        "(''Instagram account selected'', ig_b\<lparr>ia_is_selected := True\<rparr>)" "snd ?i2"
        sample_db "''a''" 1 "(''Twitter account selected'', tw_a)" "snd ?t1" "''b''"
        "(''Twitter account selected'', tw_b\<lparr>ta_is_selected := True\<rparr>)" "snd ?t2"]
  have cf: "(\<exists>r. facebook_pages_selected 1 (snd ?f1) = Json (Some r) \<and> fp_page_id r = ''42''
               \<and> fp_user_id r = 1)
          \<and> (\<exists>r. facebook_pages_selected_rows 1 (snd ?f2) = [r] \<and> fp_page_id r = ''99'')"
    using inst uf f1 f2 by blast
  have ci: "\<exists>r. instagram_accounts_selected_rows 1 (snd ?i2) = [r] \<and> ia_instagram_id r = ''b''"
    using inst ui i1 i2 by blast
  have ct: "\<exists>r. twitter_accounts_selected_rows 1 (snd ?t2) = [r] \<and> ta_twitter_id r = ''b''"
    using inst ut t1 t2 by blast
  show ?thesis
    using uf ui ut f1 f2 i1 i2 t1 t2 cf ci ct by (metis fst_conv)
qed

subsection \<open>Publishing\<close>


lemma list_ex_filter_Cons: "list_ex P t \<Longrightarrow> \<exists>x xs. filter P t = x # xs \<and> P x \<and> x \<in> set t"
proof -
  assume "list_ex P t"
  then have "filter P t \<noteq> []" by (auto simp: list_ex_iff filter_empty_conv)
  then obtain x xs where e: "filter P t = x # xs" by (cases "filter P t") auto
  then have "x \<in> set (filter P t)" by simp
  then have "P x \<and> x \<in> set t" by simp
  with e show ?thesis by blast
qed




lemma fb_publish_provider_fails:
  assumes "\<And>c. isl (api c)"
  shows "\<exists>calls. snd (facebook_publish api postId u now d) = (d, calls)
     \<and> (fst (facebook_publish api postId u now d) = Err 404 ''Post not found'' \<and> calls = []
        \<or> fst (facebook_publish api postId u now d) = Err 400 ''Page not found'' \<and> calls = []
        \<or> fst (facebook_publish api postId u now d) = Err 500 ''Failed to publish post''
            \<and> (length calls = 1 \<or> calls = [] \<and> out_of_int4 postId))"
proof -
  have "\<And>c x. api c \<noteq> Inr x"
    using assms by (metis sum.disc(2))
  then show ?thesis
    by (auto simp: facebook_publish_def Let_def split: list.splits sum.splits)
qed

lemma ig_publish_provider_fails:
  assumes "(\<forall>c. isl (api1 c)) \<or> (\<forall>c. isl (api2 c))"
  shows "\<exists>calls. snd (instagram_publish api1 api2 postId caption imageUrl u now d) = (d, calls)
     \<and> (fst (instagram_publish api1 api2 postId caption imageUrl u now d)
            = Err 400 ''Image URL required'' \<and> calls = []
        \<or> fst (instagram_publish api1 api2 postId caption imageUrl u now d)
            = Err 400 ''No Instagram account selected'' \<and> calls = []
        \<or> fst (instagram_publish api1 api2 postId caption imageUrl u now d)
            = Err 500 ''Failed to publish to Instagram'' \<and> calls \<noteq> [])"
proof -
  have "(\<forall>c x. api1 c \<noteq> Inr x) \<or> (\<forall>c x. api2 c \<noteq> Inr x)"
    using assms by (metis sum.disc(2))
  then show ?thesis
    by (auto simp: instagram_publish_def Let_def split: list.splits sum.splits)
qed

lemma tw_tweet_provider_fails:
  assumes "\<And>c. isl (api c)"
  shows "\<exists>calls. snd (twitter_tweet api postId text u now d) = (d, calls)
     \<and> (fst (twitter_tweet api postId text u now d) = Err 400 ''Tweet text required'' \<and> calls = []
        \<or> fst (twitter_tweet api postId text u now d)
             = Err 400 ''Tweet must be 280 characters or less'' \<and> calls = []
        \<or> fst (twitter_tweet api postId text u now d)
             = Err 400 ''No Twitter account selected'' \<and> calls = []
        \<or> fst (twitter_tweet api postId text u now d) = Err 500 ''Failed to post tweet''
            \<and> length calls = 1)"
proof -
  have "\<And>c x. api c \<noteq> Inr x"
    using assms by (metis sum.disc(2))
  then show ?thesis
    by (auto simp: twitter_tweet_def Let_def split: list.splits sum.splits option.splits)
qed




lemmas publish_eval = facebook_publish_def instagram_publish_def twitter_tweet_def
  scheduled_posts_pkey_def sql_select_def sql_update_def truthy_str_def truthy_num_def
  or_null_def out_of_int4_def




text \<open>
  C8. When the provider's create-post call fails, the store is left as it was (the item
  keeps its status and every other field) and the caller is answered 500. The answer is an
  error as well, the store is unchanged and no call was made when the request was turned
  down before the provider was reached (404 or 400, and for the Facebook publish 500 when
  the postId does not fit the id column). This holds for the Facebook publish, the tweet
  and the Instagram publish (either of its two calls failing).
\<close>

theorem publish_provider_failure_changes_nothing:
  "((\<forall>c. isl (api c)) \<longrightarrow>
      (\<exists>calls. snd (facebook_publish api postId u now d) = (d, calls)
        \<and> (fst (facebook_publish api postId u now d) = Err 404 ''Post not found'' \<and> calls = []
           \<or> fst (facebook_publish api postId u now d) = Err 400 ''Page not found'' \<and> calls = []
           \<or> fst (facebook_publish api postId u now d) = Err 500 ''Failed to publish post''
               \<and> (length calls = 1 \<or> calls = [] \<and> out_of_int4 postId))))
   \<and> ((\<forall>c. isl (apit c)) \<longrightarrow>
      (\<exists>calls. snd (twitter_tweet apit postIdt tx ut nowt dt) = (dt, calls)
        \<and> (fst (twitter_tweet apit postIdt tx ut nowt dt) = Err 400 ''Tweet text required''
              \<and> calls = []
           \<or> fst (twitter_tweet apit postIdt tx ut nowt dt)
                = Err 400 ''Tweet must be 280 characters or less'' \<and> calls = []
           \<or> fst (twitter_tweet apit postIdt tx ut nowt dt)
                = Err 400 ''No Twitter account selected'' \<and> calls = []
           \<or> fst (twitter_tweet apit postIdt tx ut nowt dt) = Err 500 ''Failed to post tweet''
               \<and> length calls = 1)))
   \<and> ((\<forall>c. isl (api1 c)) \<or> (\<forall>c. isl (api2 c)) \<longrightarrow>
      (\<exists>calls. snd (instagram_publish api1 api2 postIdi caption imageUrl ui nowi di) = (di, calls)
        \<and> (fst (instagram_publish api1 api2 postIdi caption imageUrl ui nowi di)
               = Err 400 ''Image URL required'' \<and> calls = []
           \<or> fst (instagram_publish api1 api2 postIdi caption imageUrl ui nowi di)
               = Err 400 ''No Instagram account selected'' \<and> calls = []
           \<or> fst (instagram_publish api1 api2 postIdi caption imageUrl ui nowi di)
               = Err 500 ''Failed to publish to Instagram'' \<and> calls \<noteq> [])))"
  using fb_publish_provider_fails[of api postId u now d]
    tw_tweet_provider_fails[of apit postIdt tx ut nowt dt]
    ig_publish_provider_fails[of api1 api2 postIdi caption imageUrl ui nowi di]
  by blast

theorem publish_provider_failure_changes_nothing_witness:
  "sp_status post2 = ''pending'' \<and> post2 \<in> set (scheduled_posts sample_db)
   \<and> facebook_publish (\<lambda>c. Inl (AxiosError ''down'')) (Some 2) 2 200 sample_db
       = (Err 500 ''Failed to publish post'', sample_db, [FbFeed ''77'' ''theirs'' ''t77'' None])
   \<and> twitter_tweet (\<lambda>c. Inl (AxiosError ''down'')) (Some 2) (Some [104, 105]) 2 200 sample_db
       = (Err 500 ''Failed to post tweet'', sample_db, [TwPostTweet [104, 105] ''tc''])
   \<and> instagram_publish (\<lambda>c. Inr (Some ''box'')) (\<lambda>c. Inl (AxiosError ''down'')) (Some 2) None
        (Some ''http://img'') 2 200 sample_db
       = (Err 500 ''Failed to publish to Instagram'', sample_db,
          [IgCreateContainer ''c'' ''http://img'' [] ''tc'', IgMediaPublish ''c'' (Some ''box'') ''tc''])"
  using publish_provider_failure_changes_nothing
    [where api = "\<lambda>c. Inl (AxiosError ''down'')" and postId = "Some 2" and u = 2 and now = 200
       and d = sample_db and apit = "\<lambda>c. Inl (AxiosError ''down'')" and postIdt = "Some 2"
       and tx = "Some [104, 105]" and ut = 2 and nowt = 200 and dt = sample_db
       and ?api1.0 = "\<lambda>c. Inr (Some ''box'')" and ?api2.0 = "\<lambda>c. Inl (AxiosError ''down'')"
       and postIdi = "Some 2" and caption = None and imageUrl = "Some ''http://img''"
       and ui = 2 and nowi = 200 and di = sample_db]
  by (simp add: publish_eval sample_defs)



lemma characters_emoji_text: "characters (emoji_text n) = n"
  by (induction n) (simp_all add: emoji_text_def high_surrogate_def low_surrogate_def)

lemma length_emoji_text: "length (emoji_text n) = 2 * n"
  by (induction n) (simp_all add: emoji_text_def)

text \<open>
  C10, as the spec has it: a text that is absent or longer than 280 characters is refused
  with 400, and texts of 280 characters or fewer pass the check. Two texts of 280 characters
  or fewer are refused: the empty text, of 0 characters, which \<^verbatim>\<open>!text\<close> takes for absent,
  and a text of 141 emoji, which is 141 characters and 282 UTF-16 code units, the unit
  \<^verbatim>\<open>text.length\<close> counts.
\<close>

theorem twitter_tweet_characters_counterexample:
  "characters [] = 0
   \<and> twitter_tweet (\<lambda>c. Inr (Some (Some ''t9''))) None (Some []) 1 200 sample_db
       = (Err 400 ''Tweet text required'', sample_db, [])
   \<and> characters (emoji_text 141) = 141 \<and> length (emoji_text 141) = 282
   \<and> twitter_tweet (\<lambda>c. Inr (Some (Some ''t9''))) None (Some (emoji_text 141)) 1 200 sample_db
       = (Err 400 ''Tweet must be 280 characters or less'', sample_db, [])"
proof -
  have "emoji_text 141 \<noteq> []"
    using length_emoji_text[of 141] by auto
  then show ?thesis
    by (simp add: characters_emoji_text length_emoji_text twitter_tweet_def)
qed

text \<open>
  C10, amended: a tweet whose text is absent or empty, or longer than 280 UTF-16 code
  units, is answered 400 with no provider call and the store untouched. A text of 1 to 280
  code units passes both checks: neither validation error is returned, and with a selected
  account the provider is called.
\<close>

theorem twitter_tweet_validation:
  "twitter_tweet api postId None u now d = (Err 400 ''Tweet text required'', d, [])
   \<and> twitter_tweet api postId (Some []) u now d = (Err 400 ''Tweet text required'', d, [])
   \<and> (length t > 280 \<longrightarrow>
        twitter_tweet api postId (Some t) u now d
          = (Err 400 ''Tweet must be 280 characters or less'', d, []))
   \<and> (s \<noteq> [] \<and> length s \<le> 280 \<longrightarrow>
        fst (twitter_tweet api postId (Some s) u now d) \<noteq> Err 400 ''Tweet text required''
        \<and> fst (twitter_tweet api postId (Some s) u now d)
            \<noteq> Err 400 ''Tweet must be 280 characters or less''
        \<and> (list_ex (\<lambda>r. ta_user_id r = u \<and> ta_is_selected r) (twitter_accounts d)
             \<longrightarrow> snd (snd (twitter_tweet api postId (Some s) u now d))
                   = [TwPostTweet s (ta_access_token
                        (hd (sql_select (\<lambda>r. ta_user_id r = u \<and> ta_is_selected r)
                               (twitter_accounts d))))]))"
proof (intro conjI impI)
  show "twitter_tweet api postId None u now d = (Err 400 ''Tweet text required'', d, [])"
    by (simp add: twitter_tweet_def)
  show "twitter_tweet api postId (Some []) u now d = (Err 400 ''Tweet text required'', d, [])"
    by (simp add: twitter_tweet_def)
next
  assume "length t > 280"
  then show "twitter_tweet api postId (Some t) u now d
          = (Err 400 ''Tweet must be 280 characters or less'', d, [])"
    by (auto simp: twitter_tweet_def)
next
  assume a: "s \<noteq> [] \<and> length s \<le> 280"
  then show "fst (twitter_tweet api postId (Some s) u now d) \<noteq> Err 400 ''Tweet text required''"
    by (auto simp: twitter_tweet_def Let_def split: list.splits sum.splits option.splits)
  from a show "fst (twitter_tweet api postId (Some s) u now d)
            \<noteq> Err 400 ''Tweet must be 280 characters or less''"
    by (auto simp: twitter_tweet_def Let_def split: list.splits sum.splits option.splits)
  assume "list_ex (\<lambda>r. ta_user_id r = u \<and> ta_is_selected r) (twitter_accounts d)"
  from list_ex_filter_Cons[OF this] obtain x xs where
    "filter (\<lambda>r. ta_user_id r = u \<and> ta_is_selected r) (twitter_accounts d) = x # xs"
    by blast
  with a show "snd (snd (twitter_tweet api postId (Some s) u now d))
                   = [TwPostTweet s (ta_access_token
                        (hd (sql_select (\<lambda>r. ta_user_id r = u \<and> ta_is_selected r)
                               (twitter_accounts d))))]"
    by (auto simp: twitter_tweet_def Let_def sql_select_def split: sum.splits option.splits)
qed

theorem twitter_tweet_validation_witness:
  "length (replicate 281 (97 :: 16 word)) > 280
   \<and> twitter_tweet (\<lambda>c. Inr (Some (Some ''t9''))) None (Some (replicate 281 97)) 1 200 sample_db
       = (Err 400 ''Tweet must be 280 characters or less'', sample_db, [])
   \<and> replicate 280 (97 :: 16 word) \<noteq> [] \<and> length (replicate 280 (97 :: 16 word)) \<le> 280
   \<and> list_ex (\<lambda>r. ta_user_id r = 1 \<and> ta_is_selected r) (twitter_accounts sample_db)
   \<and> snd (snd (twitter_tweet (\<lambda>c. Inr (Some (Some ''t9''))) None (Some (replicate 280 97)) 1 200
                 sample_db))
       = [TwPostTweet (replicate 280 97) ''ta'']"
proof -
  have h: "length (replicate 281 (97 :: 16 word)) > 280"
    "replicate 280 (97 :: 16 word) \<noteq> []" "length (replicate 280 (97 :: 16 word)) \<le> 280"
    "list_ex (\<lambda>r. ta_user_id r = 1 \<and> ta_is_selected r) (twitter_accounts sample_db)"
    "ta_access_token (hd (sql_select (\<lambda>r. ta_user_id r = 1 \<and> ta_is_selected r)
        (twitter_accounts sample_db))) = ''ta''"
    by (simp_all add: sample_defs sql_select_def)
  show ?thesis
    using h twitter_tweet_validation
      [where api = "\<lambda>c. Inr (Some (Some ''t9''))" and postId = None and u = 1 and now = 200
         and d = sample_db and t = "replicate 281 97" and s = "replicate 280 97"]
    by simp
qed

subsection \<open>Insights\<close>

lemma sql_insert_do_nothing_append:
  "\<exists>ys. sql_insert_do_nothing c new t = t @ ys"
  by (simp add: sql_insert_do_nothing_def)

lemma fi_insert_append:
  "\<exists>ys. facebook_insights (snd (facebook_insights_insert u now pid name v d))
          = facebook_insights d @ ys"
  by (auto simp: facebook_insights_insert_def Let_def sql_insert_do_nothing_def
        split: option.splits)

lemma fi_store_values_append:
  "\<exists>ys. facebook_insights (snd (facebook_insights_store_values u now pid name vs d))
          = facebook_insights d @ ys"
proof (induction vs arbitrary: d)
  case Nil
  then show ?case by simp
next
  case (Cons v vs)
  obtain ok d' where s: "facebook_insights_insert u now pid name v d = (ok, d')"
    by (cases "facebook_insights_insert u now pid name v d")
  from fi_insert_append[of u now pid name v d] s obtain ys where
    1: "facebook_insights d' = facebook_insights d @ ys" by auto
  from Cons.IH[of d'] obtain zs where
    2: "facebook_insights (snd (facebook_insights_store_values u now pid name vs d'))
          = facebook_insights d' @ zs" by blast
  show ?case using s 1 2 by (cases ok) auto
qed

lemma fi_store_append:
  "\<exists>ys. facebook_insights (snd (facebook_insights_store u now pid ms d))
          = facebook_insights d @ ys"
proof (induction ms arbitrary: d)
  case Nil
  then show ?case by simp
next
  case (Cons m ms)
  obtain ok d' where s: "facebook_insights_store_values u now pid (mt_name m) (or_empty (mt_values m)) d = (ok, d')"
    by (cases "facebook_insights_store_values u now pid (mt_name m) (or_empty (mt_values m)) d")
  from fi_store_values_append[of u now pid "mt_name m" "or_empty (mt_values m)" d] s obtain ys where
    1: "facebook_insights d' = facebook_insights d @ ys" by auto
  from Cons.IH[of d'] obtain zs where
    2: "facebook_insights (snd (facebook_insights_store u now pid ms d'))
          = facebook_insights d' @ zs" by blast
  show ?case using s 1 2 by (cases ok) auto
qed

lemma fi_get_append:
  "\<exists>ys. facebook_insights (fst (snd (facebook_insights_get api sd ed u now d)))
          = facebook_insights d @ ys"
proof -
  have "\<And>pid xs. \<exists>ys. facebook_insights (snd (facebook_insights_store u now pid xs d))
          = facebook_insights d @ ys"
    by (rule fi_store_append)
  then show ?thesis
    by (auto simp: facebook_insights_get_def Let_def split: list.splits sum.splits prod.splits)
       (metis snd_conv)+
qed

lemma fi_insert_conflict:
  assumes "iso_date (iv_end_time v) = Some date"
    and "list_ex (\<lambda>r. fi_page_id r = pid \<and> fi_metric_name r = nm \<and> fi_insight_date r = date)
           (facebook_insights d)"
  shows "fst (facebook_insights_insert u now pid (Some nm) v d)"
    and "facebook_insights (snd (facebook_insights_insert u now pid (Some nm) v d))
          = facebook_insights d"
  using assms by (simp_all add: facebook_insights_insert_def Let_def sql_insert_do_nothing_def)

lemma fi_insert_first_wins:
  assumes "iso_date (iv_end_time v1) = Some date" and "iso_date (iv_end_time v2) = Some date"
    and "\<not> list_ex (\<lambda>r. fi_page_id r = pid \<and> fi_metric_name r = nm \<and> fi_insight_date r = date)
           (facebook_insights d)"
  shows "map fi_metric_value
           (filter (\<lambda>r. fi_page_id r = pid \<and> fi_metric_name r = nm \<and> fi_insight_date r = date)
              (facebook_insights
                 (snd (facebook_insights_insert u2 now2 pid (Some nm) v2
                    (snd (facebook_insights_insert u1 now1 pid (Some nm) v1 d))))))
         = [iv_value v1]"
proof -
  have "filter (\<lambda>r. fi_page_id r = pid \<and> fi_metric_name r = nm \<and> fi_insight_date r = date)
              (facebook_insights d) = []"
    using assms(3) by (auto simp: list_ex_iff filter_empty_conv)
  then show ?thesis
    using assms
    by (simp add: facebook_insights_insert_def Let_def sql_insert_do_nothing_def)
qed

text \<open>
  C7. The insights table is insert-only and the first write for a key
  \<open>(page_id, metric_name, insight_date)\<close> wins: GET /insights leaves every stored row in
  place and only appends; an insert whose key is already stored succeeds and changes no
  row; after two writes of one key that was not stored, the value stored is the first.
\<close>

theorem facebook_insights_first_write_wins:
  "(\<exists>ys. facebook_insights (fst (snd (facebook_insights_get api startDate endDate userId now d)))
           = facebook_insights d @ ys)
   \<and> (iso_date (iv_end_time v) = Some date
        \<and> list_ex (\<lambda>r. fi_page_id r = pid \<and> fi_metric_name r = nm \<and> fi_insight_date r = date)
             (facebook_insights e)
      \<longrightarrow> fst (facebook_insights_insert u t pid (Some nm) v e)
          \<and> facebook_insights (snd (facebook_insights_insert u t pid (Some nm) v e))
               = facebook_insights e)
   \<and> (iso_date (iv_end_time v1) = Some day \<and> iso_date (iv_end_time v2) = Some day
        \<and> \<not> list_ex (\<lambda>r. fi_page_id r = p \<and> fi_metric_name r = m \<and> fi_insight_date r = day)
               (facebook_insights g)
      \<longrightarrow> map fi_metric_value
            (filter (\<lambda>r. fi_page_id r = p \<and> fi_metric_name r = m \<and> fi_insight_date r = day)
               (facebook_insights
                  (snd (facebook_insights_insert u2 t2 p (Some m) v2
                     (snd (facebook_insights_insert u1 t1 p (Some m) v1 g))))))
          = [iv_value v1])"
  using fi_get_append[of api startDate endDate userId now d]
    fi_insert_conflict[of v date pid nm e u t]
    fi_insert_first_wins[of v1 day v2 p m g u2 t2 u1 t1]
  by blast

theorem facebook_insights_first_write_wins_witness:
  "iso_date (Some 86400) = Some 1 \<and> iso_date (Some 90000) = Some 1
   \<and> facebook_insights (snd (facebook_insights_insert 1 100 ''42'' (Some ''page_fans'')
        \<lparr>iv_value = Some 10, iv_end_time = Some 86400\<rparr> sample_db))
      = [\<lparr>fi_id = 1, fi_user_id = 1, fi_page_id = ''42'', fi_metric_name = ''page_fans'',
          fi_metric_value = Some 10, fi_insight_date = 1, fi_created_at = 100\<rparr>]
   \<and> fst (facebook_insights_insert 1 200 ''42'' (Some ''page_fans'')
        \<lparr>iv_value = Some 15, iv_end_time = Some 90000\<rparr>
        (snd (facebook_insights_insert 1 100 ''42'' (Some ''page_fans'')
           \<lparr>iv_value = Some 10, iv_end_time = Some 86400\<rparr> sample_db)))
   \<and> facebook_insights (snd (facebook_insights_insert 1 200 ''42'' (Some ''page_fans'')
        \<lparr>iv_value = Some 15, iv_end_time = Some 90000\<rparr>
        (snd (facebook_insights_insert 1 100 ''42'' (Some ''page_fans'')
           \<lparr>iv_value = Some 10, iv_end_time = Some 86400\<rparr> sample_db))))
      = [\<lparr>fi_id = 1, fi_user_id = 1, fi_page_id = ''42'', fi_metric_name = ''page_fans'',
          fi_metric_value = Some 10, fi_insight_date = 1, fi_created_at = 100\<rparr>]
   \<and> map fi_metric_value
        (filter (\<lambda>r. fi_page_id r = ''42'' \<and> fi_metric_name r = ''page_fans''
                      \<and> fi_insight_date r = 1)
          (facebook_insights (snd (facebook_insights_insert 1 200 ''42'' (Some ''page_fans'')
             \<lparr>iv_value = Some 15, iv_end_time = Some 90000\<rparr>
             (snd (facebook_insights_insert 1 100 ''42'' (Some ''page_fans'')
                \<lparr>iv_value = Some 10, iv_end_time = Some 86400\<rparr> sample_db))))))
      = [Some 10]"
proof -
  let ?v1 = "\<lparr>iv_value = Some 10, iv_end_time = Some 86400\<rparr>"
  let ?v2 = "\<lparr>iv_value = Some 15, iv_end_time = Some 90000\<rparr>"
  let ?d1 = "snd (facebook_insights_insert 1 100 ''42'' (Some ''page_fans'') ?v1 sample_db)"
  have dates: "iso_date (Some 86400) = Some 1" "iso_date (Some 90000) = Some 1"
    by (simp_all add: iso_date_def)
  have first: "facebook_insights ?d1
      = [\<lparr>fi_id = 1, fi_user_id = 1, fi_page_id = ''42'', fi_metric_name = ''page_fans'',
          fi_metric_value = Some 10, fi_insight_date = 1, fi_created_at = 100\<rparr>]"
    by (simp add: facebook_insights_insert_def dates Let_def sql_insert_do_nothing_def
          sample_db_def)
  have stored: "list_ex (\<lambda>r. fi_page_id r = ''42'' \<and> fi_metric_name r = ''page_fans''
                             \<and> fi_insight_date r = 1) (facebook_insights ?d1)"
    unfolding first by simp
  have fresh: "\<not> list_ex (\<lambda>r. fi_page_id r = ''42'' \<and> fi_metric_name r = ''page_fans''
                             \<and> fi_insight_date r = 1) (facebook_insights sample_db)"
    by (simp add: sample_db_def)
  note inst = facebook_insights_first_write_wins
    [where v = ?v2 and date = 1 and pid = "''42''" and nm = "''page_fans''" and e = ?d1
       and u = 1 and t = 200 and ?v1.0 = ?v1 and ?v2.0 = ?v2 and day = 1 and p = "''42''"
       and m = "''page_fans''" and g = sample_db and ?u1.0 = 1 and ?t1.0 = 100
       and ?u2.0 = 1 and ?t2.0 = 200]
  show ?thesis
    using inst dates first stored fresh by simp
qed

subsection \<open>Mirror upserts\<close>

lemma sql_upsert_frame:
  assumes "\<And>r. fr (f r) = fr r"
  shows "\<exists>ys. map fr (sql_upsert c f new t) = map fr t @ ys"
proof (cases "list_ex c t")
  case True
  have "map fr (sql_update c f t) = map fr t"
    by (simp add: sql_update_def assms)
  with True show ?thesis by (simp add: sql_upsert_def)
next
  case False
  then show ?thesis by (simp add: sql_upsert_def)
qed

lemma sql_upsert_frame_existing:
  assumes "\<And>r. fr (f r) = fr r" and "list_ex c t"
  shows "map fr (sql_upsert c f new t) = map fr t"
  using assms by (simp add: sql_upsert_def sql_update_def)

lemma sql_upsert_others:
  assumes "\<And>r. c (f r) = c r" and "list_ex c t"
  shows "filter (\<lambda>r. \<not> c r) (sql_upsert c f new t) = filter (\<lambda>r. \<not> c r) t"
proof -
  have "filter (\<lambda>r. \<not> c r) (map (\<lambda>r. if c r then f r else r) t) = filter (\<lambda>r. \<not> c r) t"
    by (induction t) (auto simp: assms(1))
  with assms(2) show ?thesis by (simp add: sql_upsert_def sql_update_def)
qed

lemma sql_upsert_updated:
  assumes "\<And>r. P (f r)" and "list_ex c t"
  shows "list_all (\<lambda>r. c r \<longrightarrow> P r) (sql_upsert c f new t)"
proof -
  have "list_all (\<lambda>r. c r \<longrightarrow> P r) (map (\<lambda>r. if c r then f r else r) t)"
    by (induction t) (simp_all add: assms(1))
  then show ?thesis
    using assms(2) by (simp add: sql_upsert_def sql_update_def)
qed

lemma fp_upsert_frame:
  "\<exists>ys. map fp_frame (facebook_pages (snd (facebook_pages_upsert u now page d))) = map fp_frame (facebook_pages d) @ ys"
proof -
  have "\<And>c f new. (\<And>r. fp_frame (f r) = fp_frame r)
          \<Longrightarrow> \<exists>ys. map fp_frame (sql_upsert c f new (facebook_pages d)) = map fp_frame (facebook_pages d) @ ys"
    by (rule sql_upsert_frame)
  then show ?thesis
    by (cases "pg_id page"; cases "pg_name page"; cases "pg_access_token page"; simp add: facebook_pages_upsert_def Let_def fp_frame_def)
qed

lemma fp_upsert_rest:
  "(snd (facebook_pages_upsert u now page d))\<lparr>facebook_pages := a, facebook_pages_seq := b\<rparr>
     = d\<lparr>facebook_pages := a, facebook_pages_seq := b\<rparr>"
  by (cases "pg_id page"; cases "pg_name page"; cases "pg_access_token page"; simp add: facebook_pages_upsert_def Let_def)

lemma fp_upsert_failed:
  "\<not> fst (facebook_pages_upsert u now page d)
     \<Longrightarrow> facebook_pages (snd (facebook_pages_upsert u now page d)) = facebook_pages d"
  by (cases "pg_id page"; cases "pg_name page"; cases "pg_access_token page"; simp add: facebook_pages_upsert_def Let_def)

lemma fp_upsert_shape:
  assumes "fst (facebook_pages_upsert u now page d)"
  shows "\<exists>f new. facebook_pages (snd (facebook_pages_upsert u now page d))
             = sql_upsert (\<lambda>r. fp_user_id r = u \<and> Some (fp_page_id r) = pg_id page) f new (facebook_pages d)
           \<and> (\<forall>r. fp_frame (f r) = fp_frame r)
           \<and> (\<forall>r. (let r = f r in fp_user_id r = u \<and> Some (fp_page_id r) = pg_id page) = (fp_user_id r = u \<and> Some (fp_page_id r) = pg_id page))
           \<and> (\<forall>r. let r = f r in Some (fp_page_name r) = pg_name page \<and> Some (fp_page_access_token r) = pg_access_token page \<and> fp_followers_count r = or_zero (pg_followers_count page))"
proof -
  from assms obtain x1 x2 x3 where
    e: "pg_id page = Some x1" "pg_name page = Some x2" "pg_access_token page = Some x3"
    by (cases "pg_id page"; cases "pg_name page"; cases "pg_access_token page"; simp add: facebook_pages_upsert_def Let_def)
  show ?thesis
    apply (intro exI conjI)
       apply (simp add: facebook_pages_upsert_def Let_def e)
      apply (simp_all add: fp_frame_def e)
    done
qed

lemma fp_upsert_existing:
  assumes "list_ex (\<lambda>r. fp_user_id r = u \<and> Some (fp_page_id r) = pg_id page) (facebook_pages d)"
  shows "map fp_frame (facebook_pages (snd (facebook_pages_upsert u now page d))) = map fp_frame (facebook_pages d)"
    and "filter (\<lambda>r. \<not> (fp_user_id r = u \<and> Some (fp_page_id r) = pg_id page)) (facebook_pages (snd (facebook_pages_upsert u now page d)))
           = filter (\<lambda>r. \<not> (fp_user_id r = u \<and> Some (fp_page_id r) = pg_id page)) (facebook_pages d)"
    and "fst (facebook_pages_upsert u now page d)
           \<Longrightarrow> list_all (\<lambda>r. fp_user_id r = u \<and> Some (fp_page_id r) = pg_id page \<longrightarrow> Some (fp_page_name r) = pg_name page \<and> Some (fp_page_access_token r) = pg_access_token page \<and> fp_followers_count r = or_zero (pg_followers_count page)) (facebook_pages (snd (facebook_pages_upsert u now page d)))"
proof -
  let ?c = "\<lambda>r. fp_user_id r = u \<and> Some (fp_page_id r) = pg_id page"
  let ?t' = "facebook_pages (snd (facebook_pages_upsert u now page d))"
  have "map fp_frame ?t' = map fp_frame (facebook_pages d)
        \<and> filter (\<lambda>r. \<not> ?c r) ?t' = filter (\<lambda>r. \<not> ?c r) (facebook_pages d)"
  proof (cases "fst (facebook_pages_upsert u now page d)")
    case False
    then show ?thesis by (simp add: fp_upsert_failed)
  next
    case True
    from fp_upsert_shape[OF True] obtain f new where
      t': "?t' = sql_upsert ?c f new (facebook_pages d)" and fr: "\<And>r. fp_frame (f r) = fp_frame r"
      and key: "\<And>r. ?c (f r) = ?c r"
      unfolding Let_def by blast
    have "map fp_frame (sql_upsert ?c f new (facebook_pages d)) = map fp_frame (facebook_pages d)"
      using fr assms by (rule sql_upsert_frame_existing)
    moreover have "filter (\<lambda>r. \<not> ?c r) (sql_upsert ?c f new (facebook_pages d))
                     = filter (\<lambda>r. \<not> ?c r) (facebook_pages d)"
      using key assms by (rule sql_upsert_others)
    ultimately show ?thesis unfolding t' by blast
  qed
  then show "map fp_frame ?t' = map fp_frame (facebook_pages d)"
    and "filter (\<lambda>r. \<not> ?c r) ?t' = filter (\<lambda>r. \<not> ?c r) (facebook_pages d)"
    by blast+
  assume ok: "fst (facebook_pages_upsert u now page d)"
  from fp_upsert_shape[OF ok] obtain f new where
    t': "?t' = sql_upsert ?c f new (facebook_pages d)"
    and vals: "\<And>r. let r = f r in Some (fp_page_name r) = pg_name page \<and> Some (fp_page_access_token r) = pg_access_token page \<and> fp_followers_count r = or_zero (pg_followers_count page)"
    by blast
  have "list_all (\<lambda>r. ?c r \<longrightarrow> (let r = r in Some (fp_page_name r) = pg_name page \<and> Some (fp_page_access_token r) = pg_access_token page \<and> fp_followers_count r = or_zero (pg_followers_count page))) (sql_upsert ?c f new (facebook_pages d))"
    by (rule sql_upsert_updated[OF _ assms]) (use vals in \<open>simp add: Let_def\<close>)
  then show "list_all (\<lambda>r. ?c r \<longrightarrow> Some (fp_page_name r) = pg_name page \<and> Some (fp_page_access_token r) = pg_access_token page \<and> fp_followers_count r = or_zero (pg_followers_count page)) ?t'"
    unfolding t' Let_def .
qed

lemma fp_store_frame:
  "\<exists>ys. map fp_frame (facebook_pages (snd (facebook_pages_store u now xs d))) = map fp_frame (facebook_pages d) @ ys"
proof (induction xs arbitrary: d)
  case Nil
  then show ?case by simp
next
  case (Cons x xs)
  obtain ok d' where s: "facebook_pages_upsert u now x d = (ok, d')"
    by (cases "facebook_pages_upsert u now x d")
  from fp_upsert_frame[of u now x d] s obtain ys where
    1: "map fp_frame (facebook_pages d') = map fp_frame (facebook_pages d) @ ys" by auto
  from Cons.IH[of d'] obtain zs where
    2: "map fp_frame (facebook_pages (snd (facebook_pages_store u now xs d'))) = map fp_frame (facebook_pages d') @ zs"
    by blast
  show ?case using s 1 2 by (cases ok) auto
qed

lemma fp_store_rest:
  "(snd (facebook_pages_store u now xs d))\<lparr>facebook_pages := a, facebook_pages_seq := b\<rparr>
     = d\<lparr>facebook_pages := a, facebook_pages_seq := b\<rparr>"
proof (induction xs arbitrary: d)
  case Nil
  then show ?case by simp
next
  case (Cons x xs)
  obtain ok d' where s: "facebook_pages_upsert u now x d = (ok, d')"
    by (cases "facebook_pages_upsert u now x d")
  have 1: "d'\<lparr>facebook_pages := a, facebook_pages_seq := b\<rparr> = d\<lparr>facebook_pages := a, facebook_pages_seq := b\<rparr>"
    using fp_upsert_rest[where d = d and a = a and b = b] s by (metis snd_conv)
  show ?case using s 1 Cons.IH[of d'] by (cases ok) auto
qed

lemma fp_get_frame:
  "\<exists>ys. map fp_frame (facebook_pages (fst (snd (facebook_pages_get api u now d)))) = map fp_frame (facebook_pages d) @ ys"
proof -
  have step: "\<exists>ys. map fp_frame (facebook_pages d') = map fp_frame (facebook_pages d) @ ys"
    if "facebook_pages_store u now xs d = (ok, d')" for  xs ok d'
    using fp_store_frame[of u now xs d] that by simp
  show ?thesis
    by (auto simp: facebook_pages_get_def Let_def split: list.splits sum.splits prod.splits dest: step)
qed

lemma fp_get_rest:
  "(fst (snd (facebook_pages_get api u now d)))\<lparr>facebook_pages := facebook_pages d, facebook_pages_seq := facebook_pages_seq d\<rparr> = d"
proof -
  have step: "d'\<lparr>facebook_pages := facebook_pages d, facebook_pages_seq := facebook_pages_seq d\<rparr> = d"
    if "facebook_pages_store u now xs d = (ok, d')" for  xs ok d'
    using fp_store_rest[where u = u and now = now and d = d and xs = xs and a = "facebook_pages d"
        and b = "facebook_pages_seq d"] that
    by simp
  show ?thesis
    by (auto simp: facebook_pages_get_def Let_def split: list.splits sum.splits prod.splits dest: step)
qed

lemma im_upsert_frame:
  "\<exists>ys. map im_frame (instagram_media (snd (instagram_media_upsert u now iid media d))) = map im_frame (instagram_media d) @ ys"
proof -
  have "\<And>c f new. (\<And>r. im_frame (f r) = im_frame r)
          \<Longrightarrow> \<exists>ys. map im_frame (sql_upsert c f new (instagram_media d)) = map im_frame (instagram_media d) @ ys"
    by (rule sql_upsert_frame)
  then show ?thesis
    by (cases "md_id media"; simp add: instagram_media_upsert_def Let_def im_frame_def)
qed

lemma im_upsert_rest:
  "(snd (instagram_media_upsert u now iid media d))\<lparr>instagram_media := a, instagram_media_seq := b\<rparr>
     = d\<lparr>instagram_media := a, instagram_media_seq := b\<rparr>"
  by (cases "md_id media"; simp add: instagram_media_upsert_def Let_def)

lemma im_upsert_failed:
  "\<not> fst (instagram_media_upsert u now iid media d)
     \<Longrightarrow> instagram_media (snd (instagram_media_upsert u now iid media d)) = instagram_media d"
  by (cases "md_id media"; simp add: instagram_media_upsert_def Let_def)

lemma im_upsert_shape:
  assumes "fst (instagram_media_upsert u now iid media d)"
  shows "\<exists>f new. instagram_media (snd (instagram_media_upsert u now iid media d))
             = sql_upsert (\<lambda>r. im_instagram_id r = iid \<and> Some (im_media_id r) = md_id media) f new (instagram_media d)
           \<and> (\<forall>r. im_frame (f r) = im_frame r)
           \<and> (\<forall>r. (let r = f r in im_instagram_id r = iid \<and> Some (im_media_id r) = md_id media) = (im_instagram_id r = iid \<and> Some (im_media_id r) = md_id media))
           \<and> (\<forall>r. let r = f r in im_caption r = or_null (md_caption media) \<and> im_likes_count r = or_zero (md_like_count media) \<and> im_comments_count r = or_zero (md_comments_count media))"
proof -
  from assms obtain x1 where
    e: "md_id media = Some x1"
    by (cases "md_id media"; simp add: instagram_media_upsert_def Let_def)
  show ?thesis
    apply (intro exI conjI)
       apply (simp add: instagram_media_upsert_def Let_def e)
      apply (simp_all add: im_frame_def e)
    done
qed

lemma im_upsert_existing:
  assumes "list_ex (\<lambda>r. im_instagram_id r = iid \<and> Some (im_media_id r) = md_id media) (instagram_media d)"
  shows "map im_frame (instagram_media (snd (instagram_media_upsert u now iid media d))) = map im_frame (instagram_media d)"
    and "filter (\<lambda>r. \<not> (im_instagram_id r = iid \<and> Some (im_media_id r) = md_id media)) (instagram_media (snd (instagram_media_upsert u now iid media d)))
           = filter (\<lambda>r. \<not> (im_instagram_id r = iid \<and> Some (im_media_id r) = md_id media)) (instagram_media d)"
    and "fst (instagram_media_upsert u now iid media d)
           \<Longrightarrow> list_all (\<lambda>r. im_instagram_id r = iid \<and> Some (im_media_id r) = md_id media \<longrightarrow> im_caption r = or_null (md_caption media) \<and> im_likes_count r = or_zero (md_like_count media) \<and> im_comments_count r = or_zero (md_comments_count media)) (instagram_media (snd (instagram_media_upsert u now iid media d)))"
proof -
  let ?c = "\<lambda>r. im_instagram_id r = iid \<and> Some (im_media_id r) = md_id media"
  let ?t' = "instagram_media (snd (instagram_media_upsert u now iid media d))"
  have "map im_frame ?t' = map im_frame (instagram_media d)
        \<and> filter (\<lambda>r. \<not> ?c r) ?t' = filter (\<lambda>r. \<not> ?c r) (instagram_media d)"
  proof (cases "fst (instagram_media_upsert u now iid media d)")
    case False
    then show ?thesis by (simp add: im_upsert_failed)
  next
    case True
    from im_upsert_shape[OF True] obtain f new where
      t': "?t' = sql_upsert ?c f new (instagram_media d)" and fr: "\<And>r. im_frame (f r) = im_frame r"
      and key: "\<And>r. ?c (f r) = ?c r"
      unfolding Let_def by blast
    have "map im_frame (sql_upsert ?c f new (instagram_media d)) = map im_frame (instagram_media d)"
      using fr assms by (rule sql_upsert_frame_existing)
    moreover have "filter (\<lambda>r. \<not> ?c r) (sql_upsert ?c f new (instagram_media d))
                     = filter (\<lambda>r. \<not> ?c r) (instagram_media d)"
      using key assms by (rule sql_upsert_others)
    ultimately show ?thesis unfolding t' by blast
  qed
  then show "map im_frame ?t' = map im_frame (instagram_media d)"
    and "filter (\<lambda>r. \<not> ?c r) ?t' = filter (\<lambda>r. \<not> ?c r) (instagram_media d)"
    by blast+
  assume ok: "fst (instagram_media_upsert u now iid media d)"
  from im_upsert_shape[OF ok] obtain f new where
    t': "?t' = sql_upsert ?c f new (instagram_media d)"
    and vals: "\<And>r. let r = f r in im_caption r = or_null (md_caption media) \<and> im_likes_count r = or_zero (md_like_count media) \<and> im_comments_count r = or_zero (md_comments_count media)"
    by blast
  have "list_all (\<lambda>r. ?c r \<longrightarrow> (let r = r in im_caption r = or_null (md_caption media) \<and> im_likes_count r = or_zero (md_like_count media) \<and> im_comments_count r = or_zero (md_comments_count media))) (sql_upsert ?c f new (instagram_media d))"
    by (rule sql_upsert_updated[OF _ assms]) (use vals in \<open>simp add: Let_def\<close>)
  then show "list_all (\<lambda>r. ?c r \<longrightarrow> im_caption r = or_null (md_caption media) \<and> im_likes_count r = or_zero (md_like_count media) \<and> im_comments_count r = or_zero (md_comments_count media)) ?t'"
    unfolding t' Let_def .
qed

lemma im_store_frame:
  "\<exists>ys. map im_frame (instagram_media (snd (instagram_media_store u now iid xs d))) = map im_frame (instagram_media d) @ ys"
proof (induction xs arbitrary: d)
  case Nil
  then show ?case by simp
next
  case (Cons x xs)
  obtain ok d' where s: "instagram_media_upsert u now iid x d = (ok, d')"
    by (cases "instagram_media_upsert u now iid x d")
  from im_upsert_frame[of u now iid x d] s obtain ys where
    1: "map im_frame (instagram_media d') = map im_frame (instagram_media d) @ ys" by auto
  from Cons.IH[of d'] obtain zs where
    2: "map im_frame (instagram_media (snd (instagram_media_store u now iid xs d'))) = map im_frame (instagram_media d') @ zs"
    by blast
  show ?case using s 1 2 by (cases ok) auto
qed

lemma im_store_rest:
  "(snd (instagram_media_store u now iid xs d))\<lparr>instagram_media := a, instagram_media_seq := b\<rparr>
     = d\<lparr>instagram_media := a, instagram_media_seq := b\<rparr>"
proof (induction xs arbitrary: d)
  case Nil
  then show ?case by simp
next
  case (Cons x xs)
  obtain ok d' where s: "instagram_media_upsert u now iid x d = (ok, d')"
    by (cases "instagram_media_upsert u now iid x d")
  have 1: "d'\<lparr>instagram_media := a, instagram_media_seq := b\<rparr> = d\<lparr>instagram_media := a, instagram_media_seq := b\<rparr>"
    using im_upsert_rest[where d = d and a = a and b = b] s by (metis snd_conv)
  show ?case using s 1 Cons.IH[of d'] by (cases ok) auto
qed

lemma im_get_frame:
  "\<exists>ys. map im_frame (instagram_media (fst (snd (instagram_media_get api limit u now d)))) = map im_frame (instagram_media d) @ ys"
proof -
  have step: "\<exists>ys. map im_frame (instagram_media d') = map im_frame (instagram_media d) @ ys"
    if "instagram_media_store u now k xs d = (ok, d')" for k xs ok d'
    using im_store_frame[of u now k xs d] that by simp
  show ?thesis
    by (auto simp: instagram_media_get_def Let_def split: list.splits sum.splits prod.splits dest: step)
qed

lemma im_get_rest:
  "(fst (snd (instagram_media_get api limit u now d)))\<lparr>instagram_media := instagram_media d, instagram_media_seq := instagram_media_seq d\<rparr> = d"
proof -
  have step: "d'\<lparr>instagram_media := instagram_media d, instagram_media_seq := instagram_media_seq d\<rparr> = d"
    if "instagram_media_store u now k xs d = (ok, d')" for k xs ok d'
    using im_store_rest[where u = u and now = now and d = d and xs = xs and a = "instagram_media d"
        and b = "instagram_media_seq d" and iid = k] that
    by simp
  show ?thesis
    by (auto simp: instagram_media_get_def Let_def split: list.splits sum.splits prod.splits dest: step)
qed

lemma tt_upsert_frame:
  "\<exists>ys. map tt_frame (twitter_tweets (snd (twitter_tweets_upsert u now tid tweet d))) = map tt_frame (twitter_tweets d) @ ys"
proof -
  have "\<And>c f new. (\<And>r. tt_frame (f r) = tt_frame r)
          \<Longrightarrow> \<exists>ys. map tt_frame (sql_upsert c f new (twitter_tweets d)) = map tt_frame (twitter_tweets d) @ ys"
    by (rule sql_upsert_frame)
  then show ?thesis
    by (cases "tw_id tweet"; simp add: twitter_tweets_upsert_def Let_def tt_frame_def)
qed

lemma tt_upsert_rest:
  "(snd (twitter_tweets_upsert u now tid tweet d))\<lparr>twitter_tweets := a, twitter_tweets_seq := b\<rparr>
     = d\<lparr>twitter_tweets := a, twitter_tweets_seq := b\<rparr>"
  by (cases "tw_id tweet"; simp add: twitter_tweets_upsert_def Let_def)

lemma tt_upsert_failed:
  "\<not> fst (twitter_tweets_upsert u now tid tweet d)
     \<Longrightarrow> twitter_tweets (snd (twitter_tweets_upsert u now tid tweet d)) = twitter_tweets d"
  by (cases "tw_id tweet"; simp add: twitter_tweets_upsert_def Let_def)

lemma tt_upsert_shape:
  assumes "fst (twitter_tweets_upsert u now tid tweet d)"
  shows "\<exists>f new. twitter_tweets (snd (twitter_tweets_upsert u now tid tweet d))
             = sql_upsert (\<lambda>r. tt_twitter_id r = tid \<and> Some (tt_tweet_id r) = tw_id tweet) f new (twitter_tweets d)
           \<and> (\<forall>r. tt_frame (f r) = tt_frame r)
           \<and> (\<forall>r. (let r = f r in tt_twitter_id r = tid \<and> Some (tt_tweet_id r) = tw_id tweet) = (tt_twitter_id r = tid \<and> Some (tt_tweet_id r) = tw_id tweet))
           \<and> (\<forall>r. let r = f r in tt_text r = tw_text tweet \<and> tt_likes_count r = or_zero (tw_like_count tweet) \<and> tt_retweets_count r = or_zero (tw_retweet_count tweet) \<and> tt_replies_count r = or_zero (tw_reply_count tweet))"
proof -
  from assms obtain x1 where
    e: "tw_id tweet = Some x1"
    by (cases "tw_id tweet"; simp add: twitter_tweets_upsert_def Let_def)
  show ?thesis
    apply (intro exI conjI)
       apply (simp add: twitter_tweets_upsert_def Let_def e)
      apply (simp_all add: tt_frame_def e)
    done
qed

lemma tt_upsert_existing:
  assumes "list_ex (\<lambda>r. tt_twitter_id r = tid \<and> Some (tt_tweet_id r) = tw_id tweet) (twitter_tweets d)"
  shows "map tt_frame (twitter_tweets (snd (twitter_tweets_upsert u now tid tweet d))) = map tt_frame (twitter_tweets d)"
    and "filter (\<lambda>r. \<not> (tt_twitter_id r = tid \<and> Some (tt_tweet_id r) = tw_id tweet)) (twitter_tweets (snd (twitter_tweets_upsert u now tid tweet d)))
           = filter (\<lambda>r. \<not> (tt_twitter_id r = tid \<and> Some (tt_tweet_id r) = tw_id tweet)) (twitter_tweets d)"
    and "fst (twitter_tweets_upsert u now tid tweet d)
           \<Longrightarrow> list_all (\<lambda>r. tt_twitter_id r = tid \<and> Some (tt_tweet_id r) = tw_id tweet \<longrightarrow> tt_text r = tw_text tweet \<and> tt_likes_count r = or_zero (tw_like_count tweet) \<and> tt_retweets_count r = or_zero (tw_retweet_count tweet) \<and> tt_replies_count r = or_zero (tw_reply_count tweet)) (twitter_tweets (snd (twitter_tweets_upsert u now tid tweet d)))"
proof -
  let ?c = "\<lambda>r. tt_twitter_id r = tid \<and> Some (tt_tweet_id r) = tw_id tweet"
  let ?t' = "twitter_tweets (snd (twitter_tweets_upsert u now tid tweet d))"
  have "map tt_frame ?t' = map tt_frame (twitter_tweets d)
        \<and> filter (\<lambda>r. \<not> ?c r) ?t' = filter (\<lambda>r. \<not> ?c r) (twitter_tweets d)"
  proof (cases "fst (twitter_tweets_upsert u now tid tweet d)")
    case False
    then show ?thesis by (simp add: tt_upsert_failed)
  next
    case True
    from tt_upsert_shape[OF True] obtain f new where
      t': "?t' = sql_upsert ?c f new (twitter_tweets d)" and fr: "\<And>r. tt_frame (f r) = tt_frame r"
      and key: "\<And>r. ?c (f r) = ?c r"
      unfolding Let_def by blast
    have "map tt_frame (sql_upsert ?c f new (twitter_tweets d)) = map tt_frame (twitter_tweets d)"
      using fr assms by (rule sql_upsert_frame_existing)
    moreover have "filter (\<lambda>r. \<not> ?c r) (sql_upsert ?c f new (twitter_tweets d))
                     = filter (\<lambda>r. \<not> ?c r) (twitter_tweets d)"
      using key assms by (rule sql_upsert_others)
    ultimately show ?thesis unfolding t' by blast
  qed
  then show "map tt_frame ?t' = map tt_frame (twitter_tweets d)"
    and "filter (\<lambda>r. \<not> ?c r) ?t' = filter (\<lambda>r. \<not> ?c r) (twitter_tweets d)"
    by blast+
  assume ok: "fst (twitter_tweets_upsert u now tid tweet d)"
  from tt_upsert_shape[OF ok] obtain f new where
    t': "?t' = sql_upsert ?c f new (twitter_tweets d)"
    and vals: "\<And>r. let r = f r in tt_text r = tw_text tweet \<and> tt_likes_count r = or_zero (tw_like_count tweet) \<and> tt_retweets_count r = or_zero (tw_retweet_count tweet) \<and> tt_replies_count r = or_zero (tw_reply_count tweet)"
    by blast
  have "list_all (\<lambda>r. ?c r \<longrightarrow> (let r = r in tt_text r = tw_text tweet \<and> tt_likes_count r = or_zero (tw_like_count tweet) \<and> tt_retweets_count r = or_zero (tw_retweet_count tweet) \<and> tt_replies_count r = or_zero (tw_reply_count tweet))) (sql_upsert ?c f new (twitter_tweets d))"
    by (rule sql_upsert_updated[OF _ assms]) (use vals in \<open>simp add: Let_def\<close>)
  then show "list_all (\<lambda>r. ?c r \<longrightarrow> tt_text r = tw_text tweet \<and> tt_likes_count r = or_zero (tw_like_count tweet) \<and> tt_retweets_count r = or_zero (tw_retweet_count tweet) \<and> tt_replies_count r = or_zero (tw_reply_count tweet)) ?t'"
    unfolding t' Let_def .
qed

lemma tt_store_frame:
  "\<exists>ys. map tt_frame (twitter_tweets (snd (twitter_tweets_store u now tid xs d))) = map tt_frame (twitter_tweets d) @ ys"
proof (induction xs arbitrary: d)
  case Nil
  then show ?case by simp
next
  case (Cons x xs)
  obtain ok d' where s: "twitter_tweets_upsert u now tid x d = (ok, d')"
    by (cases "twitter_tweets_upsert u now tid x d")
  from tt_upsert_frame[of u now tid x d] s obtain ys where
    1: "map tt_frame (twitter_tweets d') = map tt_frame (twitter_tweets d) @ ys" by auto
  from Cons.IH[of d'] obtain zs where
    2: "map tt_frame (twitter_tweets (snd (twitter_tweets_store u now tid xs d'))) = map tt_frame (twitter_tweets d') @ zs"
    by blast
  show ?case using s 1 2 by (cases ok) auto
qed

lemma tt_store_rest:
  "(snd (twitter_tweets_store u now tid xs d))\<lparr>twitter_tweets := a, twitter_tweets_seq := b\<rparr>
     = d\<lparr>twitter_tweets := a, twitter_tweets_seq := b\<rparr>"
proof (induction xs arbitrary: d)
  case Nil
  then show ?case by simp
next
  case (Cons x xs)
  obtain ok d' where s: "twitter_tweets_upsert u now tid x d = (ok, d')"
    by (cases "twitter_tweets_upsert u now tid x d")
  have 1: "d'\<lparr>twitter_tweets := a, twitter_tweets_seq := b\<rparr> = d\<lparr>twitter_tweets := a, twitter_tweets_seq := b\<rparr>"
    using tt_upsert_rest[where d = d and a = a and b = b] s by (metis snd_conv)
  show ?case using s 1 Cons.IH[of d'] by (cases ok) auto
qed

lemma tt_get_frame:
  "\<exists>ys. map tt_frame (twitter_tweets (fst (snd (twitter_tweets_get api limit u now d)))) = map tt_frame (twitter_tweets d) @ ys"
proof -
  have step: "\<exists>ys. map tt_frame (twitter_tweets d') = map tt_frame (twitter_tweets d) @ ys"
    if "twitter_tweets_store u now k xs d = (ok, d')" for k xs ok d'
    using tt_store_frame[of u now k xs d] that by simp
  show ?thesis
    by (auto simp: twitter_tweets_get_def Let_def split: list.splits sum.splits prod.splits dest: step)
qed

lemma tt_get_rest:
  "(fst (snd (twitter_tweets_get api limit u now d)))\<lparr>twitter_tweets := twitter_tweets d, twitter_tweets_seq := twitter_tweets_seq d\<rparr> = d"
proof -
  have step: "d'\<lparr>twitter_tweets := twitter_tweets d, twitter_tweets_seq := twitter_tweets_seq d\<rparr> = d"
    if "twitter_tweets_store u now k xs d = (ok, d')" for k xs ok d'
    using tt_store_rest[where u = u and now = now and d = d and xs = xs and a = "twitter_tweets d"
        and b = "twitter_tweets_seq d" and tid = k] that
    by simp
  show ?thesis
    by (auto simp: twitter_tweets_get_def Let_def split: list.splits sum.splits prod.splits dest: step)
qed

lemma ia_upsert_frame:
  "\<exists>ys. map ia_frame (instagram_accounts (snd (instagram_accounts_upsert u now token igAccount d))) = map ia_frame (instagram_accounts d) @ ys"
proof -
  have "\<And>c f new. (\<And>r. ia_frame (f r) = ia_frame r)
          \<Longrightarrow> \<exists>ys. map ia_frame (sql_upsert c f new (instagram_accounts d)) = map ia_frame (instagram_accounts d) @ ys"
    by (rule sql_upsert_frame)
  then show ?thesis
    by (cases "iu_id igAccount"; cases "iu_username igAccount"; cases token; simp add: instagram_accounts_upsert_def Let_def ia_frame_def)
qed

lemma ia_upsert_rest:
  "(snd (instagram_accounts_upsert u now token igAccount d))\<lparr>instagram_accounts := a, instagram_accounts_seq := b\<rparr>
     = d\<lparr>instagram_accounts := a, instagram_accounts_seq := b\<rparr>"
  by (cases "iu_id igAccount"; cases "iu_username igAccount"; cases token; simp add: instagram_accounts_upsert_def Let_def)

lemma ia_upsert_failed:
  "\<not> fst (instagram_accounts_upsert u now token igAccount d)
     \<Longrightarrow> instagram_accounts (snd (instagram_accounts_upsert u now token igAccount d)) = instagram_accounts d"
  by (cases "iu_id igAccount"; cases "iu_username igAccount"; cases token; simp add: instagram_accounts_upsert_def Let_def)

lemma ia_upsert_shape:
  assumes "fst (instagram_accounts_upsert u now token igAccount d)"
  shows "\<exists>f new. instagram_accounts (snd (instagram_accounts_upsert u now token igAccount d))
             = sql_upsert (\<lambda>r. ia_user_id r = u \<and> Some (ia_instagram_id r) = iu_id igAccount) f new (instagram_accounts d)
           \<and> (\<forall>r. ia_frame (f r) = ia_frame r)
           \<and> (\<forall>r. (let r = f r in ia_user_id r = u \<and> Some (ia_instagram_id r) = iu_id igAccount) = (ia_user_id r = u \<and> Some (ia_instagram_id r) = iu_id igAccount))
           \<and> (\<forall>r. let r = f r in Some (ia_username r) = iu_username igAccount \<and> ia_profile_picture_url r = or_null (iu_profile_picture_url igAccount) \<and> ia_bio r = or_null (iu_biography igAccount) \<and> ia_followers_count r = or_zero (iu_followers_count igAccount) \<and> Some (ia_access_token r) = token)"
proof -
  from assms obtain x1 x2 x3 where
    e: "iu_id igAccount = Some x1" "iu_username igAccount = Some x2" "token = Some x3"
    by (cases "iu_id igAccount"; cases "iu_username igAccount"; cases token; simp add: instagram_accounts_upsert_def Let_def)
  show ?thesis
    apply (intro exI conjI)
       apply (simp add: instagram_accounts_upsert_def Let_def e)
      apply (simp_all add: ia_frame_def e)
    done
qed

lemma ia_upsert_existing:
  assumes "list_ex (\<lambda>r. ia_user_id r = u \<and> Some (ia_instagram_id r) = iu_id igAccount) (instagram_accounts d)"
  shows "map ia_frame (instagram_accounts (snd (instagram_accounts_upsert u now token igAccount d))) = map ia_frame (instagram_accounts d)"
    and "filter (\<lambda>r. \<not> (ia_user_id r = u \<and> Some (ia_instagram_id r) = iu_id igAccount)) (instagram_accounts (snd (instagram_accounts_upsert u now token igAccount d)))
           = filter (\<lambda>r. \<not> (ia_user_id r = u \<and> Some (ia_instagram_id r) = iu_id igAccount)) (instagram_accounts d)"
    and "fst (instagram_accounts_upsert u now token igAccount d)
           \<Longrightarrow> list_all (\<lambda>r. ia_user_id r = u \<and> Some (ia_instagram_id r) = iu_id igAccount \<longrightarrow> Some (ia_username r) = iu_username igAccount \<and> ia_profile_picture_url r = or_null (iu_profile_picture_url igAccount) \<and> ia_bio r = or_null (iu_biography igAccount) \<and> ia_followers_count r = or_zero (iu_followers_count igAccount) \<and> Some (ia_access_token r) = token) (instagram_accounts (snd (instagram_accounts_upsert u now token igAccount d)))"
proof -
  let ?c = "\<lambda>r. ia_user_id r = u \<and> Some (ia_instagram_id r) = iu_id igAccount"
  let ?t' = "instagram_accounts (snd (instagram_accounts_upsert u now token igAccount d))"
  have "map ia_frame ?t' = map ia_frame (instagram_accounts d)
        \<and> filter (\<lambda>r. \<not> ?c r) ?t' = filter (\<lambda>r. \<not> ?c r) (instagram_accounts d)"
  proof (cases "fst (instagram_accounts_upsert u now token igAccount d)")
    case False
    then show ?thesis by (simp add: ia_upsert_failed)
  next
    case True
    from ia_upsert_shape[OF True] obtain f new where
      t': "?t' = sql_upsert ?c f new (instagram_accounts d)" and fr: "\<And>r. ia_frame (f r) = ia_frame r"
      and key: "\<And>r. ?c (f r) = ?c r"
      unfolding Let_def by blast
    have "map ia_frame (sql_upsert ?c f new (instagram_accounts d)) = map ia_frame (instagram_accounts d)"
      using fr assms by (rule sql_upsert_frame_existing)
    moreover have "filter (\<lambda>r. \<not> ?c r) (sql_upsert ?c f new (instagram_accounts d))
                     = filter (\<lambda>r. \<not> ?c r) (instagram_accounts d)"
      using key assms by (rule sql_upsert_others)
    ultimately show ?thesis unfolding t' by blast
  qed
  then show "map ia_frame ?t' = map ia_frame (instagram_accounts d)"
    and "filter (\<lambda>r. \<not> ?c r) ?t' = filter (\<lambda>r. \<not> ?c r) (instagram_accounts d)"
    by blast+
  assume ok: "fst (instagram_accounts_upsert u now token igAccount d)"
  from ia_upsert_shape[OF ok] obtain f new where
    t': "?t' = sql_upsert ?c f new (instagram_accounts d)"
    and vals: "\<And>r. let r = f r in Some (ia_username r) = iu_username igAccount \<and> ia_profile_picture_url r = or_null (iu_profile_picture_url igAccount) \<and> ia_bio r = or_null (iu_biography igAccount) \<and> ia_followers_count r = or_zero (iu_followers_count igAccount) \<and> Some (ia_access_token r) = token"
    by blast
  have "list_all (\<lambda>r. ?c r \<longrightarrow> (let r = r in Some (ia_username r) = iu_username igAccount \<and> ia_profile_picture_url r = or_null (iu_profile_picture_url igAccount) \<and> ia_bio r = or_null (iu_biography igAccount) \<and> ia_followers_count r = or_zero (iu_followers_count igAccount) \<and> Some (ia_access_token r) = token)) (sql_upsert ?c f new (instagram_accounts d))"
    by (rule sql_upsert_updated[OF _ assms]) (use vals in \<open>simp add: Let_def\<close>)
  then show "list_all (\<lambda>r. ?c r \<longrightarrow> Some (ia_username r) = iu_username igAccount \<and> ia_profile_picture_url r = or_null (iu_profile_picture_url igAccount) \<and> ia_bio r = or_null (iu_biography igAccount) \<and> ia_followers_count r = or_zero (iu_followers_count igAccount) \<and> Some (ia_access_token r) = token) ?t'"
    unfolding t' Let_def .
qed

lemma ia_get_frame:
  "\<exists>ys. map ia_frame (instagram_accounts (fst (snd (instagram_accounts_get api u now d)))) = map ia_frame (instagram_accounts d) @ ys"
proof -
  have step: "\<exists>ys. map ia_frame (instagram_accounts d') = map ia_frame (instagram_accounts d) @ ys"
    if "instagram_accounts_upsert u now tok x d = (ok, d')" for tok x ok d'
    using ia_upsert_frame[of u now tok x d] that by simp
  show ?thesis
    by (auto simp: instagram_accounts_get_def Let_def split: list.splits sum.splits prod.splits option.splits
          dest: step)
qed

lemma ia_get_rest:
  "(fst (snd (instagram_accounts_get api u now d)))\<lparr>instagram_accounts := instagram_accounts d, instagram_accounts_seq := instagram_accounts_seq d\<rparr> = d"
proof -
  have step: "d'\<lparr>instagram_accounts := instagram_accounts d, instagram_accounts_seq := instagram_accounts_seq d\<rparr> = d"
    if "instagram_accounts_upsert u now tok x d = (ok, d')" for tok x ok d'
    using ia_upsert_rest[where u = u and now = now and d = d and a = "instagram_accounts d"
        and b = "instagram_accounts_seq d" and token = tok and igAccount = x] that
    by simp
  show ?thesis
    by (auto simp: instagram_accounts_get_def Let_def split: list.splits sum.splits prod.splits option.splits
          dest: step)
qed

lemma ta_upsert_frame:
  "\<exists>ys. map ta_frame (twitter_accounts (snd (twitter_accounts_upsert u now token twitterUser d))) = map ta_frame (twitter_accounts d) @ ys"
proof -
  have "\<And>c f new. (\<And>r. ta_frame (f r) = ta_frame r)
          \<Longrightarrow> \<exists>ys. map ta_frame (sql_upsert c f new (twitter_accounts d)) = map ta_frame (twitter_accounts d) @ ys"
    by (rule sql_upsert_frame)
  then show ?thesis
    by (cases "tu_id twitterUser"; cases "tu_username twitterUser"; cases token; simp add: twitter_accounts_upsert_def Let_def ta_frame_def)
qed

lemma ta_upsert_rest:
  "(snd (twitter_accounts_upsert u now token twitterUser d))\<lparr>twitter_accounts := a, twitter_accounts_seq := b\<rparr>
     = d\<lparr>twitter_accounts := a, twitter_accounts_seq := b\<rparr>"
  by (cases "tu_id twitterUser"; cases "tu_username twitterUser"; cases token; simp add: twitter_accounts_upsert_def Let_def)

lemma ta_upsert_failed:
  "\<not> fst (twitter_accounts_upsert u now token twitterUser d)
     \<Longrightarrow> twitter_accounts (snd (twitter_accounts_upsert u now token twitterUser d)) = twitter_accounts d"
  by (cases "tu_id twitterUser"; cases "tu_username twitterUser"; cases token; simp add: twitter_accounts_upsert_def Let_def)

lemma ta_upsert_shape:
  assumes "fst (twitter_accounts_upsert u now token twitterUser d)"
  shows "\<exists>f new. twitter_accounts (snd (twitter_accounts_upsert u now token twitterUser d))
             = sql_upsert (\<lambda>r. ta_user_id r = u \<and> Some (ta_twitter_id r) = tu_id twitterUser) f new (twitter_accounts d)
           \<and> (\<forall>r. ta_frame (f r) = ta_frame r)
           \<and> (\<forall>r. (let r = f r in ta_user_id r = u \<and> Some (ta_twitter_id r) = tu_id twitterUser) = (ta_user_id r = u \<and> Some (ta_twitter_id r) = tu_id twitterUser))
           \<and> (\<forall>r. let r = f r in Some (ta_username r) = tu_username twitterUser \<and> ta_bio r = or_null (tu_description twitterUser) \<and> ta_profile_picture_url r = or_null (tu_profile_image_url twitterUser) \<and> ta_followers_count r = or_zero (tu_followers_count twitterUser) \<and> Some (ta_access_token r) = token)"
proof -
  from assms obtain x1 x2 x3 where
    e: "tu_id twitterUser = Some x1" "tu_username twitterUser = Some x2" "token = Some x3"
    by (cases "tu_id twitterUser"; cases "tu_username twitterUser"; cases token; simp add: twitter_accounts_upsert_def Let_def)
  show ?thesis
    apply (intro exI conjI)
       apply (simp add: twitter_accounts_upsert_def Let_def e)
      apply (simp_all add: ta_frame_def e)
    done
qed

lemma ta_upsert_existing:
  assumes "list_ex (\<lambda>r. ta_user_id r = u \<and> Some (ta_twitter_id r) = tu_id twitterUser) (twitter_accounts d)"
  shows "map ta_frame (twitter_accounts (snd (twitter_accounts_upsert u now token twitterUser d))) = map ta_frame (twitter_accounts d)"
    and "filter (\<lambda>r. \<not> (ta_user_id r = u \<and> Some (ta_twitter_id r) = tu_id twitterUser)) (twitter_accounts (snd (twitter_accounts_upsert u now token twitterUser d)))
           = filter (\<lambda>r. \<not> (ta_user_id r = u \<and> Some (ta_twitter_id r) = tu_id twitterUser)) (twitter_accounts d)"
    and "fst (twitter_accounts_upsert u now token twitterUser d)
           \<Longrightarrow> list_all (\<lambda>r. ta_user_id r = u \<and> Some (ta_twitter_id r) = tu_id twitterUser \<longrightarrow> Some (ta_username r) = tu_username twitterUser \<and> ta_bio r = or_null (tu_description twitterUser) \<and> ta_profile_picture_url r = or_null (tu_profile_image_url twitterUser) \<and> ta_followers_count r = or_zero (tu_followers_count twitterUser) \<and> Some (ta_access_token r) = token) (twitter_accounts (snd (twitter_accounts_upsert u now token twitterUser d)))"
proof -
  let ?c = "\<lambda>r. ta_user_id r = u \<and> Some (ta_twitter_id r) = tu_id twitterUser"
  let ?t' = "twitter_accounts (snd (twitter_accounts_upsert u now token twitterUser d))"
  have "map ta_frame ?t' = map ta_frame (twitter_accounts d)
        \<and> filter (\<lambda>r. \<not> ?c r) ?t' = filter (\<lambda>r. \<not> ?c r) (twitter_accounts d)"
  proof (cases "fst (twitter_accounts_upsert u now token twitterUser d)")
    case False
    then show ?thesis by (simp add: ta_upsert_failed)
  next
    case True
    from ta_upsert_shape[OF True] obtain f new where
      t': "?t' = sql_upsert ?c f new (twitter_accounts d)" and fr: "\<And>r. ta_frame (f r) = ta_frame r"
      and key: "\<And>r. ?c (f r) = ?c r"
      unfolding Let_def by blast
    have "map ta_frame (sql_upsert ?c f new (twitter_accounts d)) = map ta_frame (twitter_accounts d)"
      using fr assms by (rule sql_upsert_frame_existing)
    moreover have "filter (\<lambda>r. \<not> ?c r) (sql_upsert ?c f new (twitter_accounts d))
                     = filter (\<lambda>r. \<not> ?c r) (twitter_accounts d)"
      using key assms by (rule sql_upsert_others)
    ultimately show ?thesis unfolding t' by blast
  qed
  then show "map ta_frame ?t' = map ta_frame (twitter_accounts d)"
    and "filter (\<lambda>r. \<not> ?c r) ?t' = filter (\<lambda>r. \<not> ?c r) (twitter_accounts d)"
    by blast+
  assume ok: "fst (twitter_accounts_upsert u now token twitterUser d)"
  from ta_upsert_shape[OF ok] obtain f new where
    t': "?t' = sql_upsert ?c f new (twitter_accounts d)"
    and vals: "\<And>r. let r = f r in Some (ta_username r) = tu_username twitterUser \<and> ta_bio r = or_null (tu_description twitterUser) \<and> ta_profile_picture_url r = or_null (tu_profile_image_url twitterUser) \<and> ta_followers_count r = or_zero (tu_followers_count twitterUser) \<and> Some (ta_access_token r) = token"
    by blast
  have "list_all (\<lambda>r. ?c r \<longrightarrow> (let r = r in Some (ta_username r) = tu_username twitterUser \<and> ta_bio r = or_null (tu_description twitterUser) \<and> ta_profile_picture_url r = or_null (tu_profile_image_url twitterUser) \<and> ta_followers_count r = or_zero (tu_followers_count twitterUser) \<and> Some (ta_access_token r) = token)) (sql_upsert ?c f new (twitter_accounts d))"
    by (rule sql_upsert_updated[OF _ assms]) (use vals in \<open>simp add: Let_def\<close>)
  then show "list_all (\<lambda>r. ?c r \<longrightarrow> Some (ta_username r) = tu_username twitterUser \<and> ta_bio r = or_null (tu_description twitterUser) \<and> ta_profile_picture_url r = or_null (tu_profile_image_url twitterUser) \<and> ta_followers_count r = or_zero (tu_followers_count twitterUser) \<and> Some (ta_access_token r) = token) ?t'"
    unfolding t' Let_def .
qed

lemma ta_get_frame:
  "\<exists>ys. map ta_frame (twitter_accounts (fst (snd (twitter_accounts_get api u now d)))) = map ta_frame (twitter_accounts d) @ ys"
proof -
  have step: "\<exists>ys. map ta_frame (twitter_accounts d') = map ta_frame (twitter_accounts d) @ ys"
    if "twitter_accounts_upsert u now tok x d = (ok, d')" for tok x ok d'
    using ta_upsert_frame[of u now tok x d] that by simp
  show ?thesis
    by (auto simp: twitter_accounts_get_def Let_def split: list.splits sum.splits prod.splits option.splits
          dest: step)
qed

lemma ta_get_rest:
  "(fst (snd (twitter_accounts_get api u now d)))\<lparr>twitter_accounts := twitter_accounts d, twitter_accounts_seq := twitter_accounts_seq d\<rparr> = d"
proof -
  have step: "d'\<lparr>twitter_accounts := twitter_accounts d, twitter_accounts_seq := twitter_accounts_seq d\<rparr> = d"
    if "twitter_accounts_upsert u now tok x d = (ok, d')" for tok x ok d'
    using ta_upsert_rest[where u = u and now = now and d = d and a = "twitter_accounts d"
        and b = "twitter_accounts_seq d" and token = tok and twitterUser = x] that
    by simp
  show ?thesis
    by (auto simp: twitter_accounts_get_def Let_def split: list.splits sum.splits prod.splits option.splits
          dest: step)
qed

text \<open>The upserts keep the \<^verbatim>\<open>UNIQUE\<close> constraints the selection properties rest on.\<close>

lemma facebook_pages_upsert_unique:
  assumes "facebook_pages_unique (facebook_pages d)"
  shows "facebook_pages_unique (facebook_pages (snd (facebook_pages_upsert u now p d)))"
  using assms unfolding facebook_pages_unique_def
  by (cases "pg_id p"; cases "pg_name p"; cases "pg_access_token p";
      simp add: facebook_pages_upsert_def Let_def)
     (rule sql_upsert_distinct; auto)

lemma instagram_accounts_upsert_unique:
  assumes "instagram_accounts_unique (instagram_accounts d)"
  shows "instagram_accounts_unique
           (instagram_accounts (snd (instagram_accounts_upsert u now token p d)))"
  using assms unfolding instagram_accounts_unique_def
  by (cases "iu_id p"; cases "iu_username p"; cases token;
      simp add: instagram_accounts_upsert_def Let_def)
     (rule sql_upsert_distinct; auto)

lemma twitter_accounts_upsert_unique:
  assumes "twitter_accounts_unique (twitter_accounts d)"
  shows "twitter_accounts_unique
           (twitter_accounts (snd (twitter_accounts_upsert u now token p d)))"
  using assms unfolding twitter_accounts_unique_def
  by (cases "tu_id p"; cases "tu_username p"; cases token;
      simp add: twitter_accounts_upsert_def Let_def)
     (rule sql_upsert_distinct; auto)

text \<open>Rows leave a mirror table in the disconnect routes, which delete all rows of the owner.\<close>

lemma facebook_disconnect_removes:
  "facebook_pages (snd (facebook_disconnect u d)) = filter (\<lambda>r. fp_user_id r \<noteq> u) (facebook_pages d)"
  by (simp add: facebook_disconnect_def Let_def sql_delete_def)

lemma instagram_disconnect_removes:
  "instagram_accounts (snd (instagram_disconnect u d))
     = filter (\<lambda>r. ia_user_id r \<noteq> u) (instagram_accounts d)
   \<and> instagram_media (snd (instagram_disconnect u d))
     = filter (\<lambda>r. im_user_id r \<noteq> u) (instagram_media d)"
  by (simp add: instagram_disconnect_def Let_def sql_delete_def)

lemma twitter_disconnect_removes:
  "twitter_accounts (snd (twitter_disconnect u d))
     = filter (\<lambda>r. ta_user_id r \<noteq> u) (twitter_accounts d)
   \<and> twitter_tweets (snd (twitter_disconnect u d))
     = filter (\<lambda>r. tt_user_id r \<noteq> u) (twitter_tweets d)"
  by (simp add: twitter_disconnect_def Let_def sql_delete_def)

lemmas json_defs = page_json_10_def page_json_15_def page_json_55_def media_json_7_def
  media_json_8_def tweet_json_5_def tweet_json_6_def ig_user_json_a_def tw_user_json_a_def

lemmas upsert_eval = facebook_pages_upsert_def instagram_media_upsert_def
  twitter_tweets_upsert_def instagram_accounts_upsert_def twitter_accounts_upsert_def
  sql_upsert_def sql_update_def or_zero_def or_null_def truthy_str_def

text \<open>
  C4, as the spec has it: an upsert on an existing key changes only engagement counts and
  the display name. The \<^verbatim>\<open>DO UPDATE SET\<close> clauses assign more: the page upsert also
  replaces the page's access token, the tweet upsert also replaces the text.
\<close>

theorem mirror_upsert_changes_token_and_text_counterexample:
  "facebook_pages sample_db = [page42, page99, page77]
   \<and> facebook_pages (snd (facebook_pages_upsert 1 300
        \<lparr>pg_id = Some ''42'', pg_name = Some ''A'', pg_access_token = Some ''fresh'',
         pg_picture_url = None, pg_followers_count = Some 10\<rparr> sample_db))
      = [page42\<lparr>fp_page_access_token := ''fresh''\<rparr>, page99, page77]
   \<and> page42\<lparr>fp_page_access_token := ''fresh''\<rparr> \<noteq> page42
   \<and> fp_page_name (page42\<lparr>fp_page_access_token := ''fresh''\<rparr>) = fp_page_name page42
   \<and> fp_followers_count (page42\<lparr>fp_page_access_token := ''fresh''\<rparr>)
       = fp_followers_count page42
   \<and> twitter_tweets sample_db = [tweet5]
   \<and> twitter_tweets (snd (twitter_tweets_upsert 1 300 ''a''
        \<lparr>tw_id = Some ''5'', tw_text = Some ''edited'', tw_like_count = Some 2,
         tw_retweet_count = None, tw_reply_count = None, tw_created_at = None\<rparr> sample_db))
      = [tweet5\<lparr>tt_text := Some ''edited''\<rparr>]
   \<and> tweet5\<lparr>tt_text := Some ''edited''\<rparr> \<noteq> tweet5"
proof -
  have "fp_page_access_token (page42\<lparr>fp_page_access_token := ''fresh''\<rparr>)
          \<noteq> fp_page_access_token page42"
    by (simp add: page42_def)
  then have 1: "page42\<lparr>fp_page_access_token := ''fresh''\<rparr> \<noteq> page42"
    by metis
  have "tt_text (tweet5\<lparr>tt_text := Some ''edited''\<rparr>) \<noteq> tt_text tweet5"
    by (simp add: tweet5_def)
  then have 2: "tweet5\<lparr>tt_text := Some ''edited''\<rparr> \<noteq> tweet5"
    by metis
  show ?thesis
    using 1 2 by (simp add: upsert_eval sample_defs)
qed

text \<open>
  C4, amended: an upsert whose key is already in the table adds and removes no row, leaves
  every row with another key as it is, and leaves in every row the columns outside its
  \<^verbatim>\<open>SET\<close> clause, among them the id, the key and the creation timestamp, as they are. When
  the statement succeeds the row of the key holds the new values of the assigned columns:
  name, access token and followers for a page; caption and the two counts for a medium;
  text and the three counts for a tweet; username, picture, bio, followers and access
  token for an Instagram or Twitter account.
\<close>

theorem mirror_upsert_existing_key:
  "(list_ex (\<lambda>r. fp_user_id r = u \<and> Some (fp_page_id r) = pg_id page) (facebook_pages d)
     \<longrightarrow> map fp_frame (facebook_pages (snd (facebook_pages_upsert u now page d)))
           = map fp_frame (facebook_pages d)
         \<and> filter (\<lambda>r. \<not> (fp_user_id r = u \<and> Some (fp_page_id r) = pg_id page))
              (facebook_pages (snd (facebook_pages_upsert u now page d)))
           = filter (\<lambda>r. \<not> (fp_user_id r = u \<and> Some (fp_page_id r) = pg_id page))
               (facebook_pages d)
         \<and> (fst (facebook_pages_upsert u now page d)
              \<longrightarrow> list_all (\<lambda>r. fp_user_id r = u \<and> Some (fp_page_id r) = pg_id page
                    \<longrightarrow> Some (fp_page_name r) = pg_name page
                        \<and> Some (fp_page_access_token r) = pg_access_token page
                        \<and> fp_followers_count r = or_zero (pg_followers_count page))
                   (facebook_pages (snd (facebook_pages_upsert u now page d)))))
   \<and> (list_ex (\<lambda>r. im_instagram_id r = iid \<and> Some (im_media_id r) = md_id media)
         (instagram_media dm)
     \<longrightarrow> map im_frame (instagram_media (snd (instagram_media_upsert um nowm iid media dm)))
           = map im_frame (instagram_media dm)
         \<and> filter (\<lambda>r. \<not> (im_instagram_id r = iid \<and> Some (im_media_id r) = md_id media))
              (instagram_media (snd (instagram_media_upsert um nowm iid media dm)))
           = filter (\<lambda>r. \<not> (im_instagram_id r = iid \<and> Some (im_media_id r) = md_id media))
               (instagram_media dm)
         \<and> (fst (instagram_media_upsert um nowm iid media dm)
              \<longrightarrow> list_all (\<lambda>r. im_instagram_id r = iid \<and> Some (im_media_id r) = md_id media
                    \<longrightarrow> im_caption r = or_null (md_caption media)
                        \<and> im_likes_count r = or_zero (md_like_count media)
                        \<and> im_comments_count r = or_zero (md_comments_count media))
                   (instagram_media (snd (instagram_media_upsert um nowm iid media dm)))))
   \<and> (list_ex (\<lambda>r. tt_twitter_id r = tid \<and> Some (tt_tweet_id r) = tw_id tweet)
         (twitter_tweets dt)
     \<longrightarrow> map tt_frame (twitter_tweets (snd (twitter_tweets_upsert ut nowt tid tweet dt)))
           = map tt_frame (twitter_tweets dt)
         \<and> filter (\<lambda>r. \<not> (tt_twitter_id r = tid \<and> Some (tt_tweet_id r) = tw_id tweet))
              (twitter_tweets (snd (twitter_tweets_upsert ut nowt tid tweet dt)))
           = filter (\<lambda>r. \<not> (tt_twitter_id r = tid \<and> Some (tt_tweet_id r) = tw_id tweet))
               (twitter_tweets dt)
         \<and> (fst (twitter_tweets_upsert ut nowt tid tweet dt)
              \<longrightarrow> list_all (\<lambda>r. tt_twitter_id r = tid \<and> Some (tt_tweet_id r) = tw_id tweet
                    \<longrightarrow> tt_text r = tw_text tweet
                        \<and> tt_likes_count r = or_zero (tw_like_count tweet)
                        \<and> tt_retweets_count r = or_zero (tw_retweet_count tweet)
                        \<and> tt_replies_count r = or_zero (tw_reply_count tweet))
                   (twitter_tweets (snd (twitter_tweets_upsert ut nowt tid tweet dt)))))
   \<and> (list_ex (\<lambda>r. ia_user_id r = ui \<and> Some (ia_instagram_id r) = iu_id igAccount)
         (instagram_accounts di)
     \<longrightarrow> map ia_frame
           (instagram_accounts (snd (instagram_accounts_upsert ui nowi tokeni igAccount di)))
           = map ia_frame (instagram_accounts di)
         \<and> filter (\<lambda>r. \<not> (ia_user_id r = ui \<and> Some (ia_instagram_id r) = iu_id igAccount))
              (instagram_accounts (snd (instagram_accounts_upsert ui nowi tokeni igAccount di)))
           = filter (\<lambda>r. \<not> (ia_user_id r = ui \<and> Some (ia_instagram_id r) = iu_id igAccount))
               (instagram_accounts di)
         \<and> (fst (instagram_accounts_upsert ui nowi tokeni igAccount di)
              \<longrightarrow> list_all (\<lambda>r. ia_user_id r = ui \<and> Some (ia_instagram_id r) = iu_id igAccount
                    \<longrightarrow> Some (ia_username r) = iu_username igAccount
                        \<and> ia_profile_picture_url r = or_null (iu_profile_picture_url igAccount)
                        \<and> ia_bio r = or_null (iu_biography igAccount)
                        \<and> ia_followers_count r = or_zero (iu_followers_count igAccount)
                        \<and> Some (ia_access_token r) = tokeni)
                   (instagram_accounts
                      (snd (instagram_accounts_upsert ui nowi tokeni igAccount di)))))
   \<and> (list_ex (\<lambda>r. ta_user_id r = ua \<and> Some (ta_twitter_id r) = tu_id twitterUser)
         (twitter_accounts da)
     \<longrightarrow> map ta_frame
           (twitter_accounts (snd (twitter_accounts_upsert ua nowa tokena twitterUser da)))
           = map ta_frame (twitter_accounts da)
         \<and> filter (\<lambda>r. \<not> (ta_user_id r = ua \<and> Some (ta_twitter_id r) = tu_id twitterUser))
              (twitter_accounts (snd (twitter_accounts_upsert ua nowa tokena twitterUser da)))
           = filter (\<lambda>r. \<not> (ta_user_id r = ua \<and> Some (ta_twitter_id r) = tu_id twitterUser))
               (twitter_accounts da)
         \<and> (fst (twitter_accounts_upsert ua nowa tokena twitterUser da)
              \<longrightarrow> list_all (\<lambda>r. ta_user_id r = ua \<and> Some (ta_twitter_id r) = tu_id twitterUser
                    \<longrightarrow> Some (ta_username r) = tu_username twitterUser
                        \<and> ta_bio r = or_null (tu_description twitterUser)
                        \<and> ta_profile_picture_url r = or_null (tu_profile_image_url twitterUser)
                        \<and> ta_followers_count r = or_zero (tu_followers_count twitterUser)
                        \<and> Some (ta_access_token r) = tokena)
                   (twitter_accounts
                      (snd (twitter_accounts_upsert ua nowa tokena twitterUser da)))))"
  apply (intro conjI)
  subgoal using fp_upsert_existing[of u page d now] by blast
  subgoal using im_upsert_existing[of iid media dm um nowm] by blast
  subgoal using tt_upsert_existing[of tid tweet dt ut nowt] by blast
  subgoal using ia_upsert_existing[of ui igAccount di nowi tokeni] by blast
  subgoal using ta_upsert_existing[of ua twitterUser da nowa tokena] by blast
  done

theorem mirror_upsert_existing_key_witness:
  "facebook_pages (snd (facebook_pages_upsert 5 100 page_json_10 sample_db))
     = [page42, page99, page77,
        \<lparr>fp_id = 4, fp_user_id = 5, fp_page_id = ''42'', fp_page_name = ''A'',
         fp_page_access_token = ''tok'', fp_profile_picture_url = None,
         fp_followers_count = 10, fp_is_selected = False, fp_created_at = 100\<rparr>]
   \<and> facebook_pages (snd (facebook_pages_upsert 5 300 page_json_15
        (snd (facebook_pages_upsert 5 100 page_json_10 sample_db))))
     = [page42, page99, page77,
        \<lparr>fp_id = 4, fp_user_id = 5, fp_page_id = ''42'', fp_page_name = ''A'',
         fp_page_access_token = ''tok'', fp_profile_picture_url = None,
         fp_followers_count = 15, fp_is_selected = False, fp_created_at = 100\<rparr>]
   \<and> map fp_frame (facebook_pages (snd (facebook_pages_upsert 5 300 page_json_15
        (snd (facebook_pages_upsert 5 100 page_json_10 sample_db)))))
     = map fp_frame (facebook_pages (snd (facebook_pages_upsert 5 100 page_json_10 sample_db)))
   \<and> fst (facebook_pages_upsert 5 300 page_json_15
        (snd (facebook_pages_upsert 5 100 page_json_10 sample_db)))
   \<and> list_all (\<lambda>r. fp_user_id r = 5 \<and> Some (fp_page_id r) = pg_id page_json_15
            \<longrightarrow> Some (fp_page_name r) = pg_name page_json_15
              \<and> Some (fp_page_access_token r) = pg_access_token page_json_15
              \<and> fp_followers_count r = or_zero (pg_followers_count page_json_15))
        (facebook_pages (snd (facebook_pages_upsert 5 300 page_json_15
           (snd (facebook_pages_upsert 5 100 page_json_10 sample_db)))))
   \<and> list_ex (\<lambda>r. im_instagram_id r = ''a'' \<and> Some (im_media_id r) = md_id media_json_7)
        (instagram_media sample_db)
   \<and> map im_frame (instagram_media (snd (instagram_media_upsert 1 300 ''a'' media_json_7 sample_db)))
     = map im_frame (instagram_media sample_db)
   \<and> list_ex (\<lambda>r. tt_twitter_id r = ''a'' \<and> Some (tt_tweet_id r) = tw_id tweet_json_5)
        (twitter_tweets sample_db)
   \<and> map tt_frame (twitter_tweets (snd (twitter_tweets_upsert 1 300 ''a'' tweet_json_5 sample_db)))
     = map tt_frame (twitter_tweets sample_db)
   \<and> list_ex (\<lambda>r. ia_user_id r = 1 \<and> Some (ia_instagram_id r) = iu_id ig_user_json_a)
        (instagram_accounts sample_db)
   \<and> map ia_frame (instagram_accounts
        (snd (instagram_accounts_upsert 1 300 (Some ''ta'') ig_user_json_a sample_db)))
     = map ia_frame (instagram_accounts sample_db)
   \<and> list_ex (\<lambda>r. ta_user_id r = 1 \<and> Some (ta_twitter_id r) = tu_id tw_user_json_a)
        (twitter_accounts sample_db)
   \<and> map ta_frame (twitter_accounts
        (snd (twitter_accounts_upsert 1 300 (Some ''ta'') tw_user_json_a sample_db)))
     = map ta_frame (twitter_accounts sample_db)"
proof -
  let ?d1 = "snd (facebook_pages_upsert 5 100 page_json_10 sample_db)"
  have e1: "facebook_pages ?d1
     = [page42, page99, page77,
        \<lparr>fp_id = 4, fp_user_id = 5, fp_page_id = ''42'', fp_page_name = ''A'',
         fp_page_access_token = ''tok'', fp_profile_picture_url = None,
         fp_followers_count = 10, fp_is_selected = False, fp_created_at = 100\<rparr>]"
    by (simp add: upsert_eval sample_defs json_defs)
  have e2: "facebook_pages (snd (facebook_pages_upsert 5 300 page_json_15 ?d1))
     = [page42, page99, page77,
        \<lparr>fp_id = 4, fp_user_id = 5, fp_page_id = ''42'', fp_page_name = ''A'',
         fp_page_access_token = ''tok'', fp_profile_picture_url = None,
         fp_followers_count = 15, fp_is_selected = False, fp_created_at = 100\<rparr>]"
    by (simp add: upsert_eval sample_defs json_defs)
  have h1: "list_ex (\<lambda>r. fp_user_id r = 5 \<and> Some (fp_page_id r) = pg_id page_json_15)
              (facebook_pages ?d1)"
    unfolding e1 by (simp add: json_defs sample_defs)
  have h2: "list_ex (\<lambda>r. im_instagram_id r = ''a'' \<and> Some (im_media_id r) = md_id media_json_7)
              (instagram_media sample_db)"
    and h3: "list_ex (\<lambda>r. tt_twitter_id r = ''a'' \<and> Some (tt_tweet_id r) = tw_id tweet_json_5)
              (twitter_tweets sample_db)"
    and h4: "list_ex (\<lambda>r. ia_user_id r = 1 \<and> Some (ia_instagram_id r) = iu_id ig_user_json_a)
              (instagram_accounts sample_db)"
    and h5: "list_ex (\<lambda>r. ta_user_id r = 1 \<and> Some (ta_twitter_id r) = tu_id tw_user_json_a)
              (twitter_accounts sample_db)"
    by (simp_all add: json_defs sample_defs)
  note inst = mirror_upsert_existing_key
    [where u = 5 and page = page_json_15 and d = ?d1 and now = 300
       and iid = "''a''" and media = media_json_7 and dm = sample_db and um = 1 and nowm = 300
       and tid = "''a''" and tweet = tweet_json_5 and dt = sample_db and ut = 1 and nowt = 300
       and ui = 1 and igAccount = ig_user_json_a and di = sample_db and nowi = 300
       and tokeni = "Some ''ta''"
       and ua = 1 and twitterUser = tw_user_json_a and da = sample_db and nowa = 300
       and tokena = "Some ''ta''"]
  have ok: "fst (facebook_pages_upsert 5 300 page_json_15 ?d1)"
    by (simp add: upsert_eval json_defs)
  note c1 = inst[THEN conjunct1, rule_format, OF h1, THEN conjunct1]
  note v1 = inst[THEN conjunct1, THEN mp, OF h1, THEN conjunct2, THEN conjunct2, THEN mp, OF ok]
  note c2 = inst[THEN conjunct2, THEN conjunct1, rule_format, OF h2, THEN conjunct1]
  note c3 = inst[THEN conjunct2, THEN conjunct2, THEN conjunct1, rule_format, OF h3,
      THEN conjunct1]
  note c4 = inst[THEN conjunct2, THEN conjunct2, THEN conjunct2, THEN conjunct1, rule_format,
      OF h4, THEN conjunct1]
  note c5 = inst[THEN conjunct2, THEN conjunct2, THEN conjunct2, THEN conjunct2, rule_format,
      OF h5, THEN conjunct1]
  show ?thesis
    by (intro conjI) (fact e1 e2 c1 ok v1 h2 c2 h3 c3 h4 c4 h5 c5)+
qed

text \<open>
  C6. No synchronisation deletes a mirror row. After GET /pages, GET /media, GET /tweets
  and the two GET /accounts, whatever the provider answered, the mirror table consists of
  the rows it had, each at its place with its id, owner, native id and timestamps, followed
  by the rows that were inserted; and the request changes nothing in the store besides
  that table and its id sequence.
\<close>

theorem mirror_sync_keeps_rows:
  "(\<exists>ys. map fp_frame (facebook_pages (fst (snd (facebook_pages_get api u now d))))
           = map fp_frame (facebook_pages d) @ ys)
   \<and> (fst (snd (facebook_pages_get api u now d)))
        \<lparr>facebook_pages := facebook_pages d, facebook_pages_seq := facebook_pages_seq d\<rparr> = d
   \<and> (\<exists>ys. map im_frame (instagram_media (fst (snd (instagram_media_get apim limit u now d))))
           = map im_frame (instagram_media d) @ ys)
   \<and> (fst (snd (instagram_media_get apim limit u now d)))
        \<lparr>instagram_media := instagram_media d, instagram_media_seq := instagram_media_seq d\<rparr> = d
   \<and> (\<exists>ys. map tt_frame (twitter_tweets (fst (snd (twitter_tweets_get apit limit u now d))))
           = map tt_frame (twitter_tweets d) @ ys)
   \<and> (fst (snd (twitter_tweets_get apit limit u now d)))
        \<lparr>twitter_tweets := twitter_tweets d, twitter_tweets_seq := twitter_tweets_seq d\<rparr> = d
   \<and> (\<exists>ys. map ia_frame (instagram_accounts (fst (snd (instagram_accounts_get apii u now d))))
           = map ia_frame (instagram_accounts d) @ ys)
   \<and> (fst (snd (instagram_accounts_get apii u now d)))
        \<lparr>instagram_accounts := instagram_accounts d,
          instagram_accounts_seq := instagram_accounts_seq d\<rparr> = d
   \<and> (\<exists>ys. map ta_frame (twitter_accounts (fst (snd (twitter_accounts_get apia u now d))))
           = map ta_frame (twitter_accounts d) @ ys)
   \<and> (fst (snd (twitter_accounts_get apia u now d)))
        \<lparr>twitter_accounts := twitter_accounts d,
          twitter_accounts_seq := twitter_accounts_seq d\<rparr> = d"
  by (intro conjI fp_get_frame fp_get_rest im_get_frame im_get_rest tt_get_frame tt_get_rest
        ia_get_frame ia_get_rest ta_get_frame ta_get_rest)

theorem mirror_sync_keeps_rows_witness:
  "facebook_pages sample_db = [page42, page99, page77]
   \<and> fst (snd (facebook_pages_get (\<lambda>c. Inr (Some [page_json_55])) 1 300 sample_db))
     = sample_db\<lparr>facebook_pages_seq := 4,
         facebook_pages := [page42, page99, page77,
           \<lparr>fp_id = 4, fp_user_id = 1, fp_page_id = ''55'', fp_page_name = ''E'',
            fp_page_access_token = ''t55'', fp_profile_picture_url = None,
            fp_followers_count = 0, fp_is_selected = False, fp_created_at = 300\<rparr>]\<rparr>
   \<and> (\<exists>ys. map fp_frame (facebook_pages
          (fst (snd (facebook_pages_get (\<lambda>c. Inr (Some [page_json_55])) 1 300 sample_db))))
        = map fp_frame (facebook_pages sample_db) @ ys)
   \<and> instagram_media (fst (snd (instagram_media_get (\<lambda>c. Inr (Some [media_json_8])) None 1 300
          sample_db)))
     = [media7,
        \<lparr>im_id = 2, im_user_id = 1, im_instagram_id = ''a'', im_media_id = ''8'',
         im_caption = None, im_media_type = Some ''VIDEO'', im_media_url = None,
         im_likes_count = 0, im_comments_count = 0, im_created_time = 250,
         im_fetched_at = 300\<rparr>]
   \<and> twitter_tweets (fst (snd (twitter_tweets_get (\<lambda>c. Inr (Some [tweet_json_6])) None 1 300
          sample_db)))
     = [tweet5,
        \<lparr>tt_id = 2, tt_user_id = 1, tt_twitter_id = ''a'', tt_tweet_id = ''6'',
         tt_text = Some ''second'', tt_likes_count = 0, tt_retweets_count = 0,
         tt_replies_count = 0, tt_created_time = 260, tt_fetched_at = 300\<rparr>]"
proof -
  have e1: "facebook_pages sample_db = [page42, page99, page77]"
    by (simp add: sample_db_def)
  have e2: "fst (snd (facebook_pages_get (\<lambda>c. Inr (Some [page_json_55])) 1 300 sample_db))
     = sample_db\<lparr>facebook_pages_seq := 4,
         facebook_pages := [page42, page99, page77,
           \<lparr>fp_id = 4, fp_user_id = 1, fp_page_id = ''55'', fp_page_name = ''E'',
            fp_page_access_token = ''t55'', fp_profile_picture_url = None,
            fp_followers_count = 0, fp_is_selected = False, fp_created_at = 300\<rparr>]\<rparr>"
    by (simp add: facebook_pages_get_def sql_select_def or_empty_def upsert_eval sample_defs
          json_defs)
  have e3: "instagram_media (fst (snd (instagram_media_get (\<lambda>c. Inr (Some [media_json_8])) None
          1 300 sample_db)))
     = [media7,
        \<lparr>im_id = 2, im_user_id = 1, im_instagram_id = ''a'', im_media_id = ''8'',
         im_caption = None, im_media_type = Some ''VIDEO'', im_media_url = None,
         im_likes_count = 0, im_comments_count = 0, im_created_time = 250,
         im_fetched_at = 300\<rparr>]"
    by (simp add: instagram_media_get_def sql_select_def or_empty_def upsert_eval sample_defs
          json_defs)
  have e4: "twitter_tweets (fst (snd (twitter_tweets_get (\<lambda>c. Inr (Some [tweet_json_6])) None
          1 300 sample_db)))
     = [tweet5,
        \<lparr>tt_id = 2, tt_user_id = 1, tt_twitter_id = ''a'', tt_tweet_id = ''6'',
         tt_text = Some ''second'', tt_likes_count = 0, tt_retweets_count = 0,
         tt_replies_count = 0, tt_created_time = 260, tt_fetched_at = 300\<rparr>]"
    by (simp add: twitter_tweets_get_def sql_select_def or_empty_def upsert_eval sample_defs
          json_defs)
  note c = mirror_sync_keeps_rows[where api = "\<lambda>c. Inr (Some [page_json_55])" and u = 1
      and now = 300 and d = sample_db, THEN conjunct1]
  show ?thesis
    by (intro conjI) (fact e1 e2 c e3 e4)+
qed

subsection \<open>Order and repetition of upserts\<close>





























end
